theory Spec2Isabelle
  imports Main
begin

section \<open>Inter-server relay bot: data model\<close>

text \<open>
  A Python \<open>str\<close> is a sequence of Unicode code points; it is modelled as a list of
  natural numbers. Literals of the source are written \<open>lit ''...''\<close> when they are
  ASCII and as explicit code-point lists otherwise. Platform identifiers and counters are
  Python integers (\<open>int\<close>). SQLite's \<open>CURRENT_TIMESTAMP\<close> and \<open>datetime('now')\<close>
  have a resolution of one second; a time is the number of seconds since the epoch.
\<close>

type_synonym str = "nat list"

definition lit :: "string \<Rightarrow> str" where
  "lit s = map of_char s"

subsection \<open>config.py\<close>

record config =
  PREFIX :: str
  SPAM_THRESHOLD :: int
  SPAM_TIME_WINDOW :: nat
  MAX_CONNECTIONS_PER_SERVER :: int
  MAX_FILE_SIZE :: int
  BLOCKED_DOMAINS :: "str list"
  PROFANITY_WORDS :: "str list"

text \<open>The values \<open>Config\<close> takes when no environment variable overrides them.\<close>

definition default_config :: config where
  "default_config =
     \<lparr>PREFIX = lit ''!'',
      SPAM_THRESHOLD = 5,
      SPAM_TIME_WINDOW = 10,
      MAX_CONNECTIONS_PER_SERVER = 10,
      MAX_FILE_SIZE = 8388608,
      BLOCKED_DOMAINS =
        [lit ''bit.ly'', lit ''tinyurl.com'', lit ''grabify.link'', lit ''iplogger.org'',
         lit ''2no.co'', lit ''cutt.ly'', lit ''discord.gift'', lit ''discordnitro.info''],
      PROFANITY_WORDS = []\<rparr>"

subsection \<open>database.py: the four tables\<close>

text \<open>
  A table is the list of its rows in rowid order, which is the order in which SQLite
  returns them for the queries of the program (none of the queries on \<open>spam_tracking\<close>
  and none of those used by the relay has an \<open>ORDER BY\<close>; \<open>fetchone\<close> is the first
  row of that list that satisfies the \<open>WHERE\<close> clause). The three \<open>AUTOINCREMENT\<close> keys
  come with the largest key handed out so far.
\<close>

record connection =
  conn_id :: int
  server1_id :: int
  channel1_id :: int
  server2_id :: int
  channel2_id :: int
  connection_name :: str
  created_at :: nat
  created_by :: int
  is_active :: bool
  description :: "str option"

record message_history_row =
  mh_id :: int
  original_message_id :: int
  forwarded_message_id :: int
  author_id :: int
  connection_id :: int
  timestamp :: nat
  content_hash :: "str option"

record server_settings_row =
  server_id :: int
  prefix :: str
  enabled :: bool
  mod_role_id :: "int option"
  log_channel_id :: "int option"
  spam_protection :: bool
  profanity_filter :: bool
  auto_delete_commands :: bool
  webhook_notifications :: bool
  ss_created_at :: nat
  updated_at :: nat

record spam_tracking_row =
  st_id :: int
  user_id :: int
  st_server_id :: int
  st_channel_id :: int
  message_count :: int
  first_message_time :: nat
  last_message_time :: nat
  is_blocked :: bool

record database =
  connections :: "connection list"
  connections_seq :: int
  message_history :: "message_history_row list"
  message_history_seq :: int
  server_settings :: "server_settings_row list"
  spam_tracking :: "spam_tracking_row list"
  spam_tracking_seq :: int

text \<open>\<open>init_db\<close> on a fresh file: the tables exist and are empty.\<close>

definition init_db :: database where
  "init_db =
     \<lparr>connections = [], connections_seq = 0,
      message_history = [], message_history_seq = 0,
      server_settings = [],
      spam_tracking = [], spam_tracking_seq = 0\<rparr>"

subsection \<open>database.py: connections\<close>

definition create_connection ::
  "nat \<Rightarrow> int \<Rightarrow> int \<Rightarrow> int \<Rightarrow> int \<Rightarrow> str \<Rightarrow> int \<Rightarrow> str option \<Rightarrow> database \<Rightarrow> int \<times> database"
where
  "create_connection now s1 c1 s2 c2 name creator descr db =
     (let new_id = connections_seq db + 1;
          row = \<lparr>conn_id = new_id, server1_id = s1, channel1_id = c1, server2_id = s2,
                 channel2_id = c2, connection_name = name, created_at = now,
                 created_by = creator, is_active = True, description = descr\<rparr>
      in (new_id, db\<lparr>connections := connections db @ [row], connections_seq := new_id\<rparr>))"

definition get_connection_by_id :: "int \<Rightarrow> database \<Rightarrow> connection option" where
  "get_connection_by_id cid db =
     find (\<lambda>r. conn_id r = cid \<and> is_active r) (connections db)"

definition get_connections_by_channel :: "int \<Rightarrow> database \<Rightarrow> connection list" where
  "get_connections_by_channel ch db =
     filter (\<lambda>r. (channel1_id r = ch \<or> channel2_id r = ch) \<and> is_active r) (connections db)"

text \<open>
  \<open>delete_connection\<close>: the \<open>UPDATE\<close> has the clause \<open>WHERE id = ?\<close> only, and
  \<open>rowcount\<close> is the number of rows that clause selects, whatever \<open>is_active\<close> was.
\<close>

definition delete_connection :: "int \<Rightarrow> database \<Rightarrow> bool \<times> database" where
  "delete_connection cid db =
     (let rowcount = length (filter (\<lambda>r. conn_id r = cid) (connections db))
      in (0 < rowcount,
          db\<lparr>connections :=
                map (\<lambda>r. if conn_id r = cid then r\<lparr>is_active := False\<rparr> else r)
                  (connections db)\<rparr>))"

definition get_server_connection_count :: "int \<Rightarrow> database \<Rightarrow> int" where
  "get_server_connection_count sid db =
     int (length (filter (\<lambda>r. (server1_id r = sid \<or> server2_id r = sid) \<and> is_active r)
                    (connections db)))"

definition deactivate_server_connections :: "int \<Rightarrow> database \<Rightarrow> database" where
  "deactivate_server_connections sid db =
     db\<lparr>connections :=
          map (\<lambda>r. if server1_id r = sid \<or> server2_id r = sid
                    then r\<lparr>is_active := False\<rparr> else r)
            (connections db)\<rparr>"

subsection \<open>database.py: message history\<close>

definition log_message ::
  "nat \<Rightarrow> int \<Rightarrow> int \<Rightarrow> int \<Rightarrow> int \<Rightarrow> str option \<Rightarrow> database \<Rightarrow> database"
where
  "log_message now original_msg_id forwarded_msg_id author cid hash db =
     (let new_id = message_history_seq db + 1;
          row = \<lparr>mh_id = new_id, original_message_id = original_msg_id,
                 forwarded_message_id = forwarded_msg_id, author_id = author,
                 connection_id = cid, timestamp = now, content_hash = hash\<rparr>
      in db\<lparr>message_history := message_history db @ [row], message_history_seq := new_id\<rparr>)"

subsection \<open>database.py: server settings\<close>

text \<open>The row that \<open>INSERT ... (server_id) VALUES (?)\<close> creates from the column defaults.\<close>

definition default_settings :: "nat \<Rightarrow> int \<Rightarrow> server_settings_row" where
  "default_settings now sid =
     \<lparr>server_id = sid, prefix = lit ''!'', enabled = True, mod_role_id = None,
      log_channel_id = None, spam_protection = True, profanity_filter = True,
      auto_delete_commands = False, webhook_notifications = False,
      ss_created_at = now, updated_at = now\<rparr>"

text \<open>\<open>INSERT OR IGNORE\<close>: nothing happens when the primary key is taken.\<close>

definition create_server_settings :: "nat \<Rightarrow> int \<Rightarrow> database \<Rightarrow> database" where
  "create_server_settings now sid db =
     (if list_ex (\<lambda>r. server_id r = sid) (server_settings db) then db
      else db\<lparr>server_settings := server_settings db @ [default_settings now sid]\<rparr>)"

text \<open>
  \<open>get_server_settings\<close> returns the row when there is one; otherwise it creates the
  row and calls itself, and that second call finds the row just created
  (lemma \<open>get_server_settings_created\<close> below), so the recursion is written out.
\<close>

definition get_server_settings :: "nat \<Rightarrow> int \<Rightarrow> database \<Rightarrow> server_settings_row \<times> database" where
  "get_server_settings now sid db =
     (case find (\<lambda>r. server_id r = sid) (server_settings db) of
        Some row \<Rightarrow> (row, db)
      | None \<Rightarrow> (default_settings now sid, create_server_settings now sid db))"

text \<open>
  \<open>update_server_setting\<close> builds the column name into the statement; its only
  caller (\<open>admin set\<close>) passes one of six names, with a string for \<open>prefix\<close> and a
  truth value for the others.
\<close>

datatype setting_value =
    SetPrefix str
  | SetEnabled bool
  | SetSpamProtection bool
  | SetProfanityFilter bool
  | SetAutoDeleteCommands bool
  | SetWebhookNotifications bool

fun set_column :: "setting_value \<Rightarrow> server_settings_row \<Rightarrow> server_settings_row" where
  "set_column (SetPrefix v) r = r\<lparr>prefix := v\<rparr>"
| "set_column (SetEnabled v) r = r\<lparr>enabled := v\<rparr>"
| "set_column (SetSpamProtection v) r = r\<lparr>spam_protection := v\<rparr>"
| "set_column (SetProfanityFilter v) r = r\<lparr>profanity_filter := v\<rparr>"
| "set_column (SetAutoDeleteCommands v) r = r\<lparr>auto_delete_commands := v\<rparr>"
| "set_column (SetWebhookNotifications v) r = r\<lparr>webhook_notifications := v\<rparr>"

definition update_server_setting :: "nat \<Rightarrow> int \<Rightarrow> setting_value \<Rightarrow> database \<Rightarrow> database" where
  "update_server_setting now sid v db =
     db\<lparr>server_settings :=
          map (\<lambda>r. if server_id r = sid then (set_column v r)\<lparr>updated_at := now\<rparr> else r)
            (server_settings db)\<rparr>"

subsection \<open>database.py: spam tracking\<close>

text \<open>
  The table \<open>spam_tracking\<close> has the primary key \<open>id\<close> and no other uniqueness
  constraint, so \<open>INSERT OR REPLACE\<close> with a fresh \<open>id\<close> never replaces: it appends.
  A row is live at \<open>now\<close> when \<open>datetime(last_message_time, '+W seconds') > datetime('now')\<close>.
  The \<open>UPDATE\<close> and the final \<open>SELECT\<close> have no liveness condition: they address
  every row of the key, and \<open>fetchone\<close> takes the first of them.
\<close>

definition same_key :: "int \<Rightarrow> int \<Rightarrow> int \<Rightarrow> spam_tracking_row \<Rightarrow> bool" where
  "same_key u s c r = (user_id r = u \<and> st_server_id r = s \<and> st_channel_id r = c)"

definition live :: "config \<Rightarrow> nat \<Rightarrow> spam_tracking_row \<Rightarrow> bool" where
  "live cfg now r = (now < last_message_time r + SPAM_TIME_WINDOW cfg)"

definition track_message_spam ::
  "config \<Rightarrow> nat \<Rightarrow> int \<Rightarrow> int \<Rightarrow> int \<Rightarrow> database \<Rightarrow> (int \<times> bool) \<times> database"
where
  "track_message_spam cfg now u s c db =
     (let existing = find (\<lambda>r. same_key u s c r \<and> live cfg now r) (spam_tracking db);
          db' =
            (case existing of
               Some e \<Rightarrow>
                 (let new_count = message_count e + 1
                  in db\<lparr>spam_tracking :=
                          map (\<lambda>r. if same_key u s c r
                                    then r\<lparr>message_count := new_count,
                                           last_message_time := now,
                                           is_blocked := (SPAM_THRESHOLD cfg \<le> new_count)\<rparr>
                                    else r)
                            (spam_tracking db)\<rparr>)
             | None \<Rightarrow>
                 (let new_id = spam_tracking_seq db + 1;
                      row = \<lparr>st_id = new_id, user_id = u, st_server_id = s, st_channel_id = c,
                             message_count = 1, first_message_time = now,
                             last_message_time = now, is_blocked = False\<rparr>
                  in db\<lparr>spam_tracking := spam_tracking db @ [row],
                         spam_tracking_seq := new_id\<rparr>));
          result =
            (case find (same_key u s c) (spam_tracking db') of
               Some r \<Rightarrow> (message_count r, is_blocked r)
             | None \<Rightarrow> (1, False))
      in (result, db'))"

definition is_user_spam_blocked :: "config \<Rightarrow> nat \<Rightarrow> int \<Rightarrow> int \<Rightarrow> int \<Rightarrow> database \<Rightarrow> bool" where
  "is_user_spam_blocked cfg now u s c db =
     (case find (\<lambda>r. same_key u s c r \<and> live cfg now r) (spam_tracking db) of
        Some r \<Rightarrow> is_blocked r
      | None \<Rightarrow> False)"

text \<open>
  \<open>cleanup_old_data\<close> has one statement, on \<open>spam_tracking\<close>; the one on
  \<open>message_history\<close> is commented out in the source. A day has 86400 seconds.
\<close>

definition cleanup_old_data :: "nat \<Rightarrow> nat \<Rightarrow> database \<Rightarrow> database" where
  "cleanup_old_data now days db =
     db\<lparr>spam_tracking :=
          filter (\<lambda>r. \<not> last_message_time r + days * 86400 < now) (spam_tracking db)\<rparr>"

text \<open>Several calls of \<open>track_message_spam\<close> for one key, at the given times.\<close>

fun track_calls ::
  "config \<Rightarrow> nat list \<Rightarrow> int \<Rightarrow> int \<Rightarrow> int \<Rightarrow> database \<Rightarrow> (int \<times> bool) list \<times> database"
where
  "track_calls cfg [] u s c db = ([], db)"
| "track_calls cfg (t # ts) u s c db =
     (let (r, db1) = track_message_spam cfg t u s c db;
          (rs, db2) = track_calls cfg ts u s c db1
      in (r # rs, db2))"

subsection \<open>Example states\<close>

text \<open>A database holding one active connection, with id 1, between channel 10 of
  server 1 and channel 20 of server 2.\<close>

definition one_connection :: database where
  "one_connection = snd (create_connection 0 1 10 2 20 (lit ''lobby'') 7 None init_db)"

subsection \<open>database.py: every operation that writes\<close>

text \<open>
  The methods of \<open>Database\<close> that execute an \<open>INSERT\<close>, \<open>UPDATE\<close> or \<open>DELETE\<close>,
  as one datatype, and runs of them at given times. \<open>forget_active\<close> blanks the one
  column a soft delete writes.
\<close>

datatype db_op =
    CreateConnection int int int int str int "str option"
  | DeleteConnection int
  | DeactivateServerConnections int
  | LogMessage int int int int "str option"
  | CreateServerSettings int
  | GetServerSettings int
  | UpdateServerSetting int setting_value
  | TrackMessageSpam int int int
  | CleanupOldData nat

fun exec_op :: "config \<Rightarrow> nat \<Rightarrow> db_op \<Rightarrow> database \<Rightarrow> database" where
  "exec_op cfg now (CreateConnection s1 c1 s2 c2 name creator descr) db =
     snd (create_connection now s1 c1 s2 c2 name creator descr db)"
| "exec_op cfg now (DeleteConnection cid) db = snd (delete_connection cid db)"
| "exec_op cfg now (DeactivateServerConnections sid) db = deactivate_server_connections sid db"
| "exec_op cfg now (LogMessage orig fwd author cid hash) db =
     log_message now orig fwd author cid hash db"
| "exec_op cfg now (CreateServerSettings sid) db = create_server_settings now sid db"
| "exec_op cfg now (GetServerSettings sid) db = snd (get_server_settings now sid db)"
| "exec_op cfg now (UpdateServerSetting sid v) db = update_server_setting now sid v db"
| "exec_op cfg now (TrackMessageSpam u s c) db = snd (track_message_spam cfg now u s c db)"
| "exec_op cfg now (CleanupOldData days) db = cleanup_old_data now days db"

fun exec_ops :: "config \<Rightarrow> (nat \<times> db_op) list \<Rightarrow> database \<Rightarrow> database" where
  "exec_ops cfg [] db = db"
| "exec_ops cfg ((now, op) # ops) db = exec_ops cfg ops (exec_op cfg now op db)"

definition forget_active :: "connection \<Rightarrow> connection" where
  "forget_active r = r\<lparr>is_active := True\<rparr>"

subsection \<open>utils/filters.py: strings\<close>

text \<open>
  The string methods the filter uses. \<open>lower_cp\<close> lower-cases the Latin capitals and
  the Cyrillic capitals (U+0410 to U+042F and U+0400 to U+040F); \<open>is_word\<close> is the class
  \<open>\w\<close> on ASCII and on the Cyrillic letters U+0400 to U+045F. These are the alphabets
  of the patterns below; on other code points \<open>lower_cp\<close> is the identity and
  \<open>is_word\<close> is false, where Python consults the Unicode tables.
\<close>

definition lower_cp :: "nat \<Rightarrow> nat" where
  "lower_cp c =
     (if 65 \<le> c \<and> c \<le> 90 then c + 32
      else if 1040 \<le> c \<and> c \<le> 1071 then c + 32
      else if 1024 \<le> c \<and> c \<le> 1039 then c + 80
      else c)"

definition lower :: "str \<Rightarrow> str" where
  "lower s = map lower_cp s"

definition is_digit :: "nat \<Rightarrow> bool" where
  "is_digit c = (48 \<le> c \<and> c \<le> 57)"

definition is_ascii_letter :: "nat \<Rightarrow> bool" where
  "is_ascii_letter c = ((65 \<le> c \<and> c \<le> 90) \<or> (97 \<le> c \<and> c \<le> 122))"

definition is_word :: "nat \<Rightarrow> bool" where
  "is_word c = (is_ascii_letter c \<or> is_digit c \<or> c = 95 \<or> (1024 \<le> c \<and> c \<le> 1119))"

fun startswith :: "str \<Rightarrow> str \<Rightarrow> bool" where
  "startswith s [] = True"
| "startswith [] (p # ps) = False"
| "startswith (c # cs) (p # ps) = (c = p \<and> startswith cs ps)"

definition endswith :: "str \<Rightarrow> str \<Rightarrow> bool" where
  "endswith s p = startswith (rev s) (rev p)"

text \<open>\<open>contains s p\<close> is Python's \<open>p in s\<close>.\<close>

fun contains :: "str \<Rightarrow> str \<Rightarrow> bool" where
  "contains [] p = (p = [])"
| "contains (c # cs) p = (startswith (c # cs) p \<or> contains cs p)"

subsection \<open>utils/filters.py: the regular expressions\<close>

text \<open>
  A compiled pattern is given by what it does at one position of the subject, seeing the
  code point before the position (for \<open>\b\<close>) and the rest of the subject. For
  \<open>findall\<close>, which scans from the left and resumes after each match, that is the
  length of the match at the position, if there is one (a \<open>pattern\<close>). For \<open>search\<close>,
  which asks for a match at some position, it is whether the pattern matches at the
  position (a \<open>matcher\<close>). No pattern of the filter matches the empty string.
\<close>

type_synonym pattern = "nat option \<Rightarrow> str \<Rightarrow> nat option"

type_synonym matcher = "nat option \<Rightarrow> str \<Rightarrow> bool"

fun findall_from :: "pattern \<Rightarrow> nat \<Rightarrow> nat option \<Rightarrow> str \<Rightarrow> str list" where
  "findall_from p skip prev [] = []"
| "findall_from p skip prev (c # cs) =
     (if 0 < skip then findall_from p (skip - 1) (Some c) cs
      else case p prev (c # cs) of
             Some n \<Rightarrow> take n (c # cs) # findall_from p (n - 1) (Some c) cs
           | None \<Rightarrow> findall_from p 0 (Some c) cs)"

definition findall :: "pattern \<Rightarrow> str \<Rightarrow> str list" where
  "findall p s = findall_from p 0 None s"

fun search_from :: "matcher \<Rightarrow> nat option \<Rightarrow> str \<Rightarrow> bool" where
  "search_from p prev [] = p prev []"
| "search_from p prev (c # cs) = (p prev (c # cs) \<or> search_from p (Some c) cs)"

definition search :: "matcher \<Rightarrow> str \<Rightarrow> bool" where
  "search p s = search_from p None s"

text \<open>A position where a word character follows is a \<open>\b\<close> when no word character
  precedes it.\<close>

definition word_start :: "nat option \<Rightarrow> bool" where
  "word_start prev = (case prev of None \<Rightarrow> True | Some c \<Rightarrow> \<not> is_word c)"

fun match_classes :: "(nat \<Rightarrow> bool) list \<Rightarrow> str \<Rightarrow> bool" where
  "match_classes [] s = True"
| "match_classes (k # ks) [] = False"
| "match_classes (k # ks) (c # cs) = (k c \<and> match_classes ks cs)"

text \<open>
  \<open>url_pattern\<close>, with \<open>IGNORECASE\<close>:
  \<^verbatim>\<open>http[s]?://(?:[a-zA-Z]|[0-9]|[$-_@.&+]|[!*\\(\\),]|(?:%[0-9a-fA-F][0-9a-fA-F]))+\<close>.
  The class \<open>[$-_@.&+]\<close> holds the range from \<open>$\<close> (36) to \<open>_\<close> (95); \<open>[!*\\(\\),]\<close>
  holds \<open>!\<close>, \<open>*\<close>, the backslash, the two parentheses and the comma. The last
  alternative, a percent escape, is three characters that the other alternatives accept
  one by one, so the repetition matches the longest run of \<open>url_char\<close>.
\<close>

definition url_char :: "nat \<Rightarrow> bool" where
  "url_char c =
     (is_ascii_letter c \<or> is_digit c
      \<or> ((36 \<le> c \<and> c \<le> 95) \<or> c = 64 \<or> c = 46 \<or> c = 38 \<or> c = 43)
      \<or> (c = 33 \<or> c = 42 \<or> c = 92 \<or> c = 40 \<or> c = 41 \<or> c = 44))"

definition url_pattern :: pattern where
  "url_pattern prev s =
     (if lower (take 4 s) = lit ''http'' then
        (let r = drop 4 s;
             r' = (if r \<noteq> [] \<and> lower_cp (hd r) = 115 then tl r else r)
         in if startswith r' (lit ''://'') then
              (let body = takeWhile url_char (drop 3 r')
               in if body = [] then None
                  else Some (length s - length (drop 3 r') + length body))
            else None)
      else None)"

text \<open>\<open>mention_pattern\<close>: \<^verbatim>\<open>@(everyone|here)\<close>, with \<open>IGNORECASE\<close>.\<close>

definition mention_pattern :: pattern where
  "mention_pattern prev s =
     (if startswith (lower s) (lit ''@everyone'') then Some 9
      else if startswith (lower s) (lit ''@here'') then Some 5
      else None)"

text \<open>
  \<open>token_pattern\<close>: \<^verbatim>\<open>[MN][A-Za-z\d]{23}\.[\w-]{6}\.[\w-]{27}|mfa\.[\w-]{84}\<close>, with
  \<open>IGNORECASE\<close>.
\<close>

definition token_pattern :: matcher where
  "token_pattern prev s =
     (match_classes
        ([\<lambda>c. lower_cp c = 109 \<or> lower_cp c = 110]
         @ replicate 23 (\<lambda>c. is_ascii_letter c \<or> is_digit c)
         @ [\<lambda>c. c = 46] @ replicate 6 (\<lambda>c. is_word c \<or> c = 45)
         @ [\<lambda>c. c = 46] @ replicate 27 (\<lambda>c. is_word c \<or> c = 45)) s
      \<or> match_classes
           (map (\<lambda>k c. lower_cp c = k) (lit ''mfa.'')
            @ replicate 84 (\<lambda>c. is_word c \<or> c = 45)) s)"

text \<open>
  \<open>fake_nitro_pattern\<close>: \<^verbatim>\<open>discord(?:\.(?:gift|nitro|app)|app\.com/gifts?)\<close>, with
  \<open>IGNORECASE\<close>. The optional \<open>s\<close> at the end does not change where it matches.
\<close>

definition fake_nitro_pattern :: matcher where
  "fake_nitro_pattern prev s =
     list_ex (startswith (lower s))
       [lit ''discord.gift'', lit ''discord.nitro'', lit ''discord.app'',
        lit ''discordapp.com/gift'']"

text \<open>
  \<open>ip_pattern\<close>: \<^verbatim>\<open>\b(?:[0-9]{1,3}\.){3}[0-9]{1,3}\b\<close>. A group \<^verbatim>\<open>[0-9]{1,3}\.\<close>
  matches where a run of one to three digits is followed by a dot (\<open>octet_dot\<close> gives
  what follows the dot); the last group matches where a run of one to three digits is
  followed by no word character.
\<close>

definition octet_dot :: "str \<Rightarrow> str option" where
  "octet_dot s =
     (let ds = takeWhile is_digit s; r = dropWhile is_digit s
      in if 1 \<le> length ds \<and> length ds \<le> 3 \<and> startswith r [46]
         then Some (tl r) else None)"

definition ip_pattern :: matcher where
  "ip_pattern prev s =
     (word_start prev \<and>
      (case octet_dot s of
         None \<Rightarrow> False
       | Some s1 \<Rightarrow>
           (case octet_dot s1 of
              None \<Rightarrow> False
            | Some s2 \<Rightarrow>
                (case octet_dot s2 of
                   None \<Rightarrow> False
                 | Some s3 \<Rightarrow>
                     (let ds = takeWhile is_digit s3; r = dropWhile is_digit s3
                      in 1 \<le> length ds \<and> length ds \<le> 3
                         \<and> (r = [] \<or> \<not> is_word (hd r)))))))"

text \<open>
  The five patterns of \<open>is_spam_pattern\<close>. \<^verbatim>\<open>(.)\1{10,}\<close> is a character other than
  the newline followed by at least ten copies of itself. \<^verbatim>\<open>(.{1,5})\1{5,}\<close> is a block
  of one to five such characters followed by at least five copies of itself. The three
  others are \<^verbatim>\<open>\b(A).*(B)\<close> for alternatives \<open>A\<close> and \<open>B\<close> of words: one of \<open>A\<close> at a word
  boundary and later on the same line one of \<open>B\<close>.
\<close>

definition repeated_char :: matcher where
  "repeated_char prev s =
     (case s of
        [] \<Rightarrow> False
      | c # cs \<Rightarrow> c \<noteq> 10 \<and> 10 \<le> length (takeWhile (\<lambda>x. x = c) cs))"

definition repeated_block :: matcher where
  "repeated_block prev s =
     list_ex (\<lambda>k. k \<le> length s \<and> 10 \<notin> set (take k s)
                  \<and> startswith s (concat (replicate 6 (take k s))))
       [1, 2, 3, 4, 5]"

definition lure :: "str list \<Rightarrow> str list \<Rightarrow> matcher" where
  "lure firsts seconds prev s =
     (word_start prev
      \<and> list_ex (\<lambda>a. startswith s a
                    \<and> list_ex (contains (takeWhile (\<lambda>c. c \<noteq> 10) (drop (length a) s)))
                         seconds) firsts)"

definition spam_patterns :: "matcher list" where
  "spam_patterns =
     [repeated_char,
      repeated_block,
      lure [lit ''free'', [1073, 1077, 1089, 1087, 1083, 1072, 1090, 1085]]
           [lit ''nitro'', lit ''discord''],
      lure [lit ''win'', [1074, 1099, 1080, 1075, 1088, 1072]]
           [lit ''money'', [1076, 1077, 1085, 1100, 1075], [1087, 1088, 1080, 1079]],
      lure [lit ''click'', [1082, 1083, 1080, 1082, 1085],
            [1087, 1077, 1088, 1077, 1093, 1086, 1076]]
           [lit ''link'', [1089, 1089, 1099, 1083, 1082]]]"

subsection \<open>utils/filters.py: the checks\<close>

definition contains_profanity :: "config \<Rightarrow> str \<Rightarrow> bool" where
  "contains_profanity cfg text =
     (if text = [] \<or> PROFANITY_WORDS cfg = [] then False
      else list_ex (\<lambda>word. contains (lower text) (lower word)) (PROFANITY_WORDS cfg))"

text \<open>
  \<open>urlparse\<close> of the standard library, on the strings \<open>_is_suspicious_url\<close> gives it:
  lower-cased matches of \<open>url_pattern\<close>, which begin with \<open>http://\<close> or \<open>https://\<close>.
  After the scheme and the two slashes the network location runs to the first of
  \<open>/\<close>, \<open>?\<close> and \<open>#\<close>; a location with one of the brackets \<open>[\<close> and \<open>]\<close> but not
  the other raises \<open>ValueError\<close> (\<open>None\<close>). What follows is cut at \<open>#\<close>, then at \<open>?\<close>,
  and the parameters of its last segment (from \<open>;\<close>) are cut off: that is the path.
  The result is the pair of \<open>netloc\<close> and \<open>path\<close>. Python from 3.11.4 on checks in
  addition that a bracketed host is an IP literal; that check is not part of the model.
\<close>

definition splitparams :: "str \<Rightarrow> str" where
  "splitparams url =
     (if 47 \<in> set url then
        (let seg = rev (takeWhile (\<lambda>c. c \<noteq> 47) (rev url));
             pre = take (length url - length seg) url
         in if 59 \<in> set seg then pre @ takeWhile (\<lambda>c. c \<noteq> 59) seg else url)
      else takeWhile (\<lambda>c. c \<noteq> 59) url)"

definition urlparse :: "str \<Rightarrow> (str \<times> str) option" where
  "urlparse url =
     (let rest = drop (length (takeWhile (\<lambda>c. c \<noteq> 58) url) + 1) url;
          after = drop 2 rest;
          netloc = takeWhile (\<lambda>c. c \<noteq> 47 \<and> c \<noteq> 63 \<and> c \<noteq> 35) after;
          url1 = dropWhile (\<lambda>c. c \<noteq> 47 \<and> c \<noteq> 63 \<and> c \<noteq> 35) after;
          url2 = takeWhile (\<lambda>c. c \<noteq> 35) url1;
          url3 = takeWhile (\<lambda>c. c \<noteq> 63) url2
      in if (91 \<in> set netloc) \<noteq> (93 \<in> set netloc) then None
         else Some (netloc, if 59 \<in> set url3 then splitparams url3 else url3))"

definition suspicious_domains :: "config \<Rightarrow> str list" where
  "suspicious_domains cfg =
     BLOCKED_DOMAINS cfg @
     [lit ''discordnitro.info'', lit ''discord-nitro.org'', lit ''discordgift.site'',
      lit ''steamcommunity-net.org'', lit ''steemcommunity.org'', lit ''stemcommunity.org'',
      lit ''grabify.link'', lit ''iplogger.org'', lit ''iplogger.com'', lit ''iplogger.net'',
      lit ''2no.co'', lit ''yip.su'', lit ''iplis.ru'', lit ''iplogger.co'', lit ''ip-api.io'',
      lit ''bmwforum.co'', lit ''leancoding.co'', lit ''quickmessage.io'',
      lit ''spottyfly.com'']"

text \<open>\<open>_is_suspicious_url\<close>: an exception inside the \<open>try\<close> makes the answer false.\<close>

definition is_suspicious_url :: "config \<Rightarrow> str \<Rightarrow> bool" where
  "is_suspicious_url cfg url =
     (case urlparse (lower url) of
        None \<Rightarrow> False
      | Some (netloc, p) \<Rightarrow>
          (let domain0 = lower netloc;
               domain = (if startswith domain0 (lit ''www.'') then drop 4 domain0 else domain0);
               full_url = lower url;
               path = lower p
           in if domain \<in> set (suspicious_domains cfg) then True
              else if list_ex (\<lambda>blocked_domain. endswith domain (46 # blocked_domain))
                        (suspicious_domains cfg) then True
              else if search fake_nitro_pattern full_url then True
              else if search ip_pattern domain then True
              else if length domain < 6 \<and> list_ex is_digit domain then True
              else if list_ex (contains path)
                        [lit ''/logger'', lit ''/grab'', lit ''/track'', lit ''/ip''] then True
              else False))"

definition contains_blocked_links :: "config \<Rightarrow> str \<Rightarrow> bool" where
  "contains_blocked_links cfg text =
     (if text = [] then False
      else list_ex (is_suspicious_url cfg) (findall url_pattern text))"

definition contains_mass_mentions :: "str \<Rightarrow> int \<Rightarrow> bool" where
  "contains_mass_mentions text threshold =
     (if text = [] then False
      else threshold \<le> int (length (findall mention_pattern text)))"

definition contains_discord_token :: "str \<Rightarrow> bool" where
  "contains_discord_token text = (if text = [] then False else search token_pattern text)"

definition is_spam_pattern :: "str \<Rightarrow> bool" where
  "is_spam_pattern text =
     (if text = [] then False
      else list_ex (\<lambda>pattern. search pattern (lower text)) spam_patterns)"

text \<open>
  \<open>filter_message\<close> collects one reason per check that fires. The five reasons are
  fixed strings in the source. The call of \<open>contains_mass_mentions\<close> has no flag and
  uses the default threshold 3.
\<close>

datatype reason = Profanity | SuspiciousLinks | SpamPattern | MassMentions | DiscordToken

definition filter_message ::
  "config \<Rightarrow> str \<Rightarrow> bool \<Rightarrow> bool \<Rightarrow> bool \<Rightarrow> bool \<Rightarrow> bool \<times> reason list"
where
  "filter_message cfg text check_profanity check_links check_spam check_tokens =
     (if text = [] then (True, [])
      else
        (let reasons =
               (if check_profanity \<and> contains_profanity cfg text then [Profanity] else [])
               @ (if check_links \<and> contains_blocked_links cfg text then [SuspiciousLinks] else [])
               @ (if check_spam \<and> is_spam_pattern text then [SpamPattern] else [])
               @ (if contains_mass_mentions text 3 then [MassMentions] else [])
               @ (if check_tokens \<and> contains_discord_token text then [DiscordToken] else [])
         in (length reasons = 0, reasons)))"

subsection \<open>cogs/interserver.py: what the relay sees of the platform\<close>

text \<open>
  A message event, with the fields \<open>on_message\<close> and \<open>_forward_message\<close> read. The
  message is one posted in a server: \<open>message.guild\<close> is not \<open>None\<close> (for a direct
  message the listener raises at \<open>message.guild.id\<close>; such events are not modelled). The
  platform is a record of what its calls answer: whether \<open>bot.get_channel\<close> finds
  the channel, whether \<open>permissions_for(me).send_messages\<close> holds there, what
  \<open>channel.send\<close> and \<open>attachment.read\<close> return or raise, and \<open>hashlib.md5\<close> of a
  text as a hex digest. An exception is a value; \<open>Inl\<close> is a raise.
\<close>

datatype message_type = DefaultType | OtherType

record attachment =
  att_filename :: str
  att_size :: int

record message =
  message_id :: int
  author_uid :: int
  author_bot :: bool
  author_display_name :: str
  type_of_message :: message_type
  content :: str
  attachments :: "attachment list"
  channel_id :: int
  guild_id :: int
  guild_name :: str
  message_created_at :: nat

record embed =
  embed_description :: str
  embed_timestamp :: nat
  embed_author_name :: str
  embed_footer :: "str \<times> int"

record discord_file =
  file_filename :: str
  file_data :: "nat list"

datatype exn = NameError | Forbidden | HTTPException | OtherException

record env =
  get_channel :: "int \<Rightarrow> bool"
  send_messages :: "int \<Rightarrow> bool"
  channel_send :: "int \<Rightarrow> embed \<Rightarrow> discord_file list \<Rightarrow> exn + int"
  attachment_read :: "attachment \<Rightarrow> exn + nat list"
  md5_hexdigest :: "str \<Rightarrow> str"

datatype log_level = WARNING | ERROR

datatype log_event =
    TargetUnavailable int int
  | AttachmentFailed str exn
  | ForbiddenCaught int
  | HTTPExceptionCaught
  | ExceptionCaught exn

text \<open>
  The state the relay acts on: the database, every call of \<open>send\<close> on a channel
  (\<open>outbox\<close>: channel, embed, files), the calls that returned (\<open>delivered\<close>: channel
  and id of the new message), and the records of the module's logger.
\<close>

record world =
  world_db :: database
  outbox :: "(int \<times> embed \<times> discord_file list) list"
  delivered :: "(int \<times> int) list"
  logged :: "(log_level \<times> log_event) list"

subsection \<open>cogs/interserver.py: forwarding\<close>

text \<open>
  The names bound in the module \<open>cogs/interserver.py\<close>: its imports (lines 1 to 9),
  \<open>logger\<close>, the class and \<open>setup\<close>. The module \<open>io\<close> is not among them, so the
  expression \<open>io.BytesIO(file_data)\<close> raises \<open>NameError\<close> where it is evaluated.
\<close>

definition module_names :: "string list" where
  "module_names =
     [''discord'', ''commands'', ''asyncio'', ''hashlib'', ''logging'', ''Optional'', ''List'',
      ''Config'', ''ContentFilter'', ''format_embed'', ''get_webhook_for_channel'',
      ''safe_send_message'', ''logger'', ''InterServer'', ''setup'']"

definition make_file :: "str \<Rightarrow> nat list \<Rightarrow> exn + discord_file" where
  "make_file filename data =
     (if ''io'' \<in> set module_names
      then Inr \<lparr>file_filename = filename, file_data = data\<rparr>
      else Inl NameError)"

text \<open>The loop over the attachments, with its inner \<open>try\<close>: a failure is logged and the
  loop goes on.\<close>

fun collect_files ::
  "config \<Rightarrow> env \<Rightarrow> attachment list \<Rightarrow> discord_file list \<Rightarrow> (log_level \<times> log_event) list
     \<Rightarrow> discord_file list \<times> (log_level \<times> log_event) list"
where
  "collect_files cfg e [] files lg = (files, lg)"
| "collect_files cfg e (a # rest) files lg =
     (if att_size a \<le> MAX_FILE_SIZE cfg then
        (case attachment_read e a of
           Inl x \<Rightarrow>
             collect_files cfg e rest files (lg @ [(WARNING, AttachmentFailed (att_filename a) x)])
         | Inr data \<Rightarrow>
             (case make_file (att_filename a) data of
                Inl x \<Rightarrow>
                  collect_files cfg e rest files
                    (lg @ [(WARNING, AttachmentFailed (att_filename a) x)])
              | Inr f \<Rightarrow> collect_files cfg e rest (files @ [f]) lg))
      else collect_files cfg e rest files lg)"

definition target_channel_id :: "message \<Rightarrow> connection \<Rightarrow> int" where
  "target_channel_id original_message conn =
     (if channel1_id conn = channel_id original_message
      then channel2_id conn else channel1_id conn)"

text \<open>The placeholder for a message without text is a fixed Russian string.\<close>

definition make_embed :: "message \<Rightarrow> connection \<Rightarrow> embed" where
  "make_embed original_message conn =
     \<lparr>embed_description =
        (if content original_message \<noteq> [] then content original_message
         else [42, 1057, 1086, 1086, 1073, 1097, 1077, 1085, 1080, 1077, 32, 1073, 1077, 1079,
               32, 1090, 1077, 1082, 1089, 1090, 1072, 42]),
      embed_timestamp = message_created_at original_message,
      embed_author_name =
        author_display_name original_message @ lit '' ('' @ guild_name original_message
          @ lit '')'',
      embed_footer = (connection_name conn, conn_id conn)\<rparr>"

text \<open>
  The body of the \<open>try\<close> of \<open>_forward_message\<close>: the exception it ends with, if any,
  and the state it leaves.
\<close>

definition forward_try ::
  "config \<Rightarrow> env \<Rightarrow> nat \<Rightarrow> message \<Rightarrow> connection \<Rightarrow> world \<Rightarrow> exn option \<times> world"
where
  "forward_try cfg e now original_message conn w =
     (let target = target_channel_id original_message conn
      in if \<not> get_channel e target then
           (None, w\<lparr>logged := logged w @ [(WARNING, TargetUnavailable target (conn_id conn))]\<rparr>)
         else if \<not> send_messages e target then (None, w)
         else
           (let emb = make_embed original_message conn;
                (files, lg) = collect_files cfg e (attachments original_message) [] [];
                w1 = w\<lparr>logged := logged w @ lg, outbox := outbox w @ [(target, emb, files)]\<rparr>
            in case channel_send e target emb files of
                 Inl x \<Rightarrow> (Some x, w1)
               | Inr forwarded_id \<Rightarrow>
                   (let hash = (if content original_message \<noteq> []
                                then Some (md5_hexdigest e (content original_message))
                                else None)
                    in (None,
                        w1\<lparr>delivered := delivered w1 @ [(target, forwarded_id)],
                           world_db :=
                             log_message now (message_id original_message) forwarded_id
                               (author_uid original_message) (conn_id conn) hash
                               (world_db w1)\<rparr>))))"

text \<open>The three \<open>except\<close> clauses, in their order; each one logs and returns.\<close>

fun except_clause :: "int \<Rightarrow> exn \<Rightarrow> log_level \<times> log_event" where
  "except_clause target Forbidden = (WARNING, ForbiddenCaught target)"
| "except_clause target HTTPException = (ERROR, HTTPExceptionCaught)"
| "except_clause target x = (ERROR, ExceptionCaught x)"

definition forward_message ::
  "config \<Rightarrow> env \<Rightarrow> nat \<Rightarrow> message \<Rightarrow> connection \<Rightarrow> world \<Rightarrow> world"
where
  "forward_message cfg e now original_message conn w =
     (case forward_try cfg e now original_message conn w of
        (None, w') \<Rightarrow> w'
      | (Some x, w') \<Rightarrow>
          w'\<lparr>logged := logged w'
                 @ [except_clause (target_channel_id original_message conn) x]\<rparr>)"

text \<open>The loop \<open>for connection in connections\<close> of \<open>on_message\<close>.\<close>

fun forward_all ::
  "config \<Rightarrow> env \<Rightarrow> nat \<Rightarrow> message \<Rightarrow> connection list \<Rightarrow> world \<Rightarrow> world"
where
  "forward_all cfg e now m [] w = w"
| "forward_all cfg e now m (conn # conns) w =
     forward_all cfg e now m conns (forward_message cfg e now m conn w)"

text \<open>A connection whose opposite channel the bot can reach and may write to.\<close>

definition deliverable :: "env \<Rightarrow> message \<Rightarrow> connection \<Rightarrow> bool" where
  "deliverable e m conn =
     (get_channel e (target_channel_id m conn) \<and> send_messages e (target_channel_id m conn))"

subsection \<open>cogs/interserver.py: the listener\<close>

definition on_message :: "config \<Rightarrow> env \<Rightarrow> nat \<Rightarrow> message \<Rightarrow> world \<Rightarrow> world" where
  "on_message cfg e now m w =
     (if author_bot m \<or> type_of_message m \<noteq> DefaultType then w
      else if startswith (content m) (PREFIX cfg) then w
      else
        (let (settings, d1) = get_server_settings now (guild_id m) (world_db w)
         in if \<not> enabled settings then w\<lparr>world_db := d1\<rparr>
            else
              (let (blocked, d2) =
                     (if spam_protection settings then
                        (let (r, d) = track_message_spam cfg now (author_uid m) (guild_id m)
                                        (channel_id m) d1
                         in (snd r, d))
                      else (False, d1));
                   w2 = w\<lparr>world_db := d2\<rparr>
               in if blocked then w2
                  else
                    (let conns = get_connections_by_channel (channel_id m) d2
                     in if conns = [] then w2
                        else if profanity_filter settings \<and> contains_profanity cfg (content m)
                        then w2
                        else if contains_blocked_links cfg (content m) then w2
                        else forward_all cfg e now m conns w2))))"

text \<open>The same message posted at each of the given times.\<close>

fun post_at :: "config \<Rightarrow> env \<Rightarrow> nat list \<Rightarrow> message \<Rightarrow> world \<Rightarrow> world" where
  "post_at cfg e [] m w = w"
| "post_at cfg e (t # ts) m w = post_at cfg e ts m (on_message cfg e t m w)"

text \<open>
  A platform on which every channel is reachable and open to the bot, every send returns
  the message id 9001 and every attachment reads as 100 zero bytes; its digest is MD5 on
  the texts of the examples.
\<close>

definition open_platform :: env where
  "open_platform =
     \<lparr>get_channel = (\<lambda>c. True),
      send_messages = (\<lambda>c. True),
      channel_send = (\<lambda>c emb files. Inr 9001),
      attachment_read = (\<lambda>a. Inr (replicate 100 0)),
      md5_hexdigest =
        (\<lambda>s. if s = lit ''hi'' then lit ''49f68a5c8493ec2c0bf489821c21fc3b''
             else if s = lit ''bit.ly/abc'' then lit ''2b9efeafe7b5df341f33d74bdee91557''
             else if s = lit ''@everyone @everyone @everyone''
               then lit ''bf65cba4e312179725f050098c67baba''
             else [])\<rparr>"

text \<open>A message of user 42 in channel 10 of server 1, and the world around a database.\<close>

definition post :: "str \<Rightarrow> message" where
  "post body =
     \<lparr>message_id = 700, author_uid = 42, author_bot = False,
      author_display_name = lit ''ann'', type_of_message = DefaultType, content = body,
      attachments = [], channel_id = 10, guild_id = 1, guild_name = lit ''alpha'',
      message_created_at = 50\<rparr>"

definition world_of :: "database \<Rightarrow> world" where
  "world_of d = \<lparr>world_db = d, outbox = [], delivered = [], logged = []\<rparr>"

text \<open>
  The end-to-end setup: the connection between channel 10 of server 1 and channel 20 of
  server 2, with \<open>spam_protection\<close> and \<open>profanity_filter\<close> of server 1 switched off.
\<close>

definition end_to_end :: database where
  "end_to_end =
     update_server_setting 1 1 (SetProfanityFilter False)
       (update_server_setting 1 1 (SetSpamProtection False)
          (create_server_settings 1 1 one_connection))"

subsection \<open>cogs/interserver.py: the command \<open>connect create\<close>\<close>

text \<open>
  The command runs in a channel of the invoking server (\<open>ctx\<close>) and names a target
  channel. The framework has checked the caller's \<open>manage_channels\<close> permission before
  the body runs. The body answers with one embed; \<open>create_reply\<close> says which. After the
  row is inserted the command sends two confirmations; when one of them raises
  (\<open>notified\<close> false) the \<open>except\<close> clause answers with the error embed, and the row
  stays.
\<close>

record command_context =
  ctx_guild_id :: int
  ctx_guild_name :: str
  ctx_channel_id :: int
  ctx_author_id :: int

record text_channel =
  tc_id :: int
  tc_guild_id :: int
  tc_guild_name :: str
  tc_permissions :: "string list"

datatype create_reply =
    LimitExceeded
  | SameServer
  | MissingPermissions "string list"
  | AlreadyExists int
  | Created int
  | CreateError

definition required_perms :: "string list" where
  "required_perms =
     [''send_messages'', ''embed_links'', ''attach_files'', ''read_message_history'']"

definition cmd_create_connection ::
  "config \<Rightarrow> nat \<Rightarrow> bool \<Rightarrow> command_context \<Rightarrow> text_channel \<Rightarrow> str \<Rightarrow> database
     \<Rightarrow> create_reply \<times> database"
where
  "cmd_create_connection cfg now notified ctx target_channel name d =
     (let current_count = get_server_connection_count (ctx_guild_id ctx) d
      in if MAX_CONNECTIONS_PER_SERVER cfg \<le> current_count then (LimitExceeded, d)
         else if tc_guild_id target_channel = ctx_guild_id ctx then (SameServer, d)
         else
           (let missing_perms =
                  filter (\<lambda>perm. perm \<notin> set (tc_permissions target_channel)) required_perms
            in if missing_perms \<noteq> [] then (MissingPermissions missing_perms, d)
               else
                 (case find (\<lambda>conn. channel1_id conn = tc_id target_channel
                                     \<or> channel2_id conn = tc_id target_channel)
                         (get_connections_by_channel (ctx_channel_id ctx) d) of
                    Some conn \<Rightarrow> (AlreadyExists (conn_id conn), d)
                  | None \<Rightarrow>
                      (let (connection_id, d') =
                             create_connection now (ctx_guild_id ctx) (ctx_channel_id ctx)
                               (tc_guild_id target_channel) (tc_id target_channel) name
                               (ctx_author_id ctx)
                               (Some ([1057, 1086, 1077, 1076, 1080, 1085, 1077, 1085, 1080,
                                       1077, 32, 1084, 1077, 1078, 1076, 1091, 32]
                                      @ ctx_guild_name ctx @ [32, 1080, 32]
                                      @ tc_guild_name target_channel))
                               d
                       in (if notified then Created connection_id else CreateError, d')))))"

text \<open>
  Servers 1, 2, 3 and so on each link their channel to the one channel 500 of server 99:
  \<open>link s\<close> is the command invoked on server \<open>s\<close>.
\<close>

definition hub :: text_channel where
  "hub = \<lparr>tc_id = 500, tc_guild_id = 99, tc_guild_name = lit ''hub'',
           tc_permissions = required_perms\<rparr>"

definition spoke :: "int \<Rightarrow> command_context" where
  "spoke s = \<lparr>ctx_guild_id = s, ctx_guild_name = lit ''spoke'', ctx_channel_id = 1000 + s,
               ctx_author_id = 7\<rparr>"

definition link :: "int \<Rightarrow> database \<Rightarrow> database" where
  "link s d = snd (cmd_create_connection default_config 0 True (spoke s) hub (lit ''hub'') d)"

definition ten_links :: database where
  "ten_links = fold link [1, 2, 3, 4, 5, 6, 7, 8, 9, 10] init_db"

text \<open>
  The first steps of \<open>on_message\<close> under names of their own, for the statements below:
  the settings row of the message's server with the database after the lookup, and the
  verdict of the spam check with the database after it.
\<close>

definition settings_stage :: "nat \<Rightarrow> message \<Rightarrow> world \<Rightarrow> server_settings_row \<times> database" where
  "settings_stage now m w = get_server_settings now (guild_id m) (world_db w)"

definition spam_stage :: "config \<Rightarrow> nat \<Rightarrow> message \<Rightarrow> world \<Rightarrow> bool \<times> database" where
  "spam_stage cfg now m w =
     (if spam_protection (fst (settings_stage now m w)) then
        (snd (fst (track_message_spam cfg now (author_uid m) (guild_id m) (channel_id m)
                     (snd (settings_stage now m w)))),
         snd (track_message_spam cfg now (author_uid m) (guild_id m) (channel_id m)
                (snd (settings_stage now m w))))
      else (False, snd (settings_stage now m w)))"

text \<open>
  Channel 10 of server 1 linked to channel 20 of server 2 and to channel 30 of server 3,
  on a platform where a send to channel 20 is forbidden and every other send returns.
\<close>

definition two_connections :: database where
  "two_connections = snd (create_connection 0 1 10 3 30 (lit ''annex'') 7 None one_connection)"

definition flaky_platform :: env where
  "flaky_platform =
     open_platform\<lparr>channel_send := (\<lambda>c emb files. if c = 20 then Inl Forbidden else Inr 9001)\<rparr>"

text \<open>The row of the one connection of \<open>one_connection\<close>.\<close>

definition lobby :: connection where
  "lobby = \<lparr>conn_id = 1, server1_id = 1, channel1_id = 10, server2_id = 2, channel2_id = 20,
             connection_name = lit ''lobby'', created_at = 0, created_by = 7,
             is_active = True, description = None\<rparr>"

section \<open>Properties\<close>

lemma find_snoc:
  "find P (xs @ [x]) = (case find P xs of Some y \<Rightarrow> Some y | None \<Rightarrow> if P x then Some x else None)"
  by (induction xs) auto

lemma get_server_settings_created:
  "find (\<lambda>r. server_id r = sid) (server_settings db) = None \<Longrightarrow>
   find (\<lambda>r. server_id r = sid) (server_settings (create_server_settings now sid db))
     = Some (default_settings now sid)"
proof -
  assume none: "find (\<lambda>r. server_id r = sid) (server_settings db) = None"
  then have "\<not> list_ex (\<lambda>r. server_id r = sid) (server_settings db)"
    by (simp add: find_None_iff list_ex_iff)
  then have "server_settings (create_server_settings now sid db)
               = server_settings db @ [default_settings now sid]"
    by (simp add: create_server_settings_def)
  moreover have "server_id (default_settings now sid) = sid"
    by (simp add: default_settings_def)
  ultimately show ?thesis
    using none by (simp add: find_snoc)
qed

subsection \<open>The abuse tracker\<close>

text \<open>
  Claim C2. With \<open>SPAM_THRESHOLD = 5\<close> and \<open>SPAM_TIME_WINDOW = 10\<close>, five calls of
  \<open>track_message_spam\<close> for one key at the seconds 0 to 4 answer with the counts 1 to 5,
  and the fifth answers blocked. The sixth call, at second 14, finds no live row and
  inserts a fresh one with count 1; the old row of the key stays in the table, before the
  new one, and the closing \<open>SELECT\<close> returns it: the call answers count 5 and blocked,
  where the claim says count 1 and not blocked.
\<close>

theorem track_message_spam_sixth_call:
  "fst (track_calls default_config [0, 1, 2, 3, 4, 14] u s c init_db)
     = [(1, False), (2, False), (3, False), (4, False), (5, True), (5, True)]"
  by (simp add: track_message_spam_def default_config_def init_db_def same_key_def live_def
        Let_def)

subsection \<open>Soft delete\<close>

lemma deactivate_twice:
  "map (\<lambda>r. if conn_id r = cid then r\<lparr>is_active := False\<rparr> else r)
     (map (\<lambda>r. if conn_id r = cid then r\<lparr>is_active := False\<rparr> else r) xs)
   = map (\<lambda>r. if conn_id r = cid then r\<lparr>is_active := False\<rparr> else r) xs"
  for xs :: "connection list"
  by (induction xs) auto

lemma deactivate_missing:
  "\<not> list_ex (\<lambda>r. conn_id r = cid) xs \<Longrightarrow>
   map (\<lambda>r. if conn_id r = cid then r\<lparr>is_active := False\<rparr> else r) xs = xs
   \<and> filter (\<lambda>r. conn_id r = cid) xs = []"
  for xs :: "connection list"
  by (induction xs) auto

lemma rowcount_positive: "(0 < length (filter P ys)) = list_ex P ys"
  by (induction ys) simp_all

lemma deactivated_list_ex:
  "list_ex (\<lambda>r. conn_id r = cid)
      (map (\<lambda>r. if conn_id r = cid then r\<lparr>is_active := False\<rparr> else r) xs)
   = list_ex (\<lambda>r. conn_id r = cid) xs"
  for xs :: "connection list"
  by (induction xs) simp_all

lemma deactivated_not_found:
  "find (\<lambda>r. conn_id r = cid \<and> is_active r)
     (map (\<lambda>r. if conn_id r = cid then r\<lparr>is_active := False\<rparr> else r) xs) = None"
  for xs :: "connection list"
  by (induction xs) simp_all

lemma deactivated_absent:
  "filter (\<lambda>r. conn_id r = cid)
     (filter (\<lambda>r. (channel1_id r = ch \<or> channel2_id r = ch) \<and> is_active r)
        (map (\<lambda>r. if conn_id r = cid then r\<lparr>is_active := False\<rparr> else r) xs)) = []"
  for xs :: "connection list"
  by (induction xs) simp_all

lemma delete_connection_connections:
  "connections (snd (delete_connection cid db))
     = map (\<lambda>r. if conn_id r = cid then r\<lparr>is_active := False\<rparr> else r) (connections db)"
  by (simp add: delete_connection_def Let_def)

lemma delete_connection_fst:
  "fst (delete_connection cid db) = (0 < length (filter (\<lambda>r. conn_id r = cid) (connections db)))"
  by (simp add: delete_connection_def Let_def)

lemma delete_connection_snd:
  "snd (delete_connection cid db)
     = db\<lparr>connections :=
          map (\<lambda>r. if conn_id r = cid then r\<lparr>is_active := False\<rparr> else r) (connections db)\<rparr>"
  by (simp add: delete_connection_def Let_def)

text \<open>
  Claim C7, as amended. \<open>delete_connection\<close> answers whether a row with the id exists,
  active or not: a second call on an existing id answers true again (and false only for a
  missing id, which leaves the database as it was). The second call changes nothing, and
  after the first call the connection is absent from \<open>get_connection_by_id\<close> and from
  \<open>get_connections_by_channel\<close> of every channel.
\<close>

theorem delete_connection_idempotent:
  "delete_connection cid (snd (delete_connection cid db))
     = (list_ex (\<lambda>r. conn_id r = cid) (connections db), snd (delete_connection cid db))
   \<and> get_connection_by_id cid (snd (delete_connection cid db)) = None
   \<and> filter (\<lambda>r. conn_id r = cid)
        (get_connections_by_channel ch (snd (delete_connection cid db))) = []
   \<and> (\<not> list_ex (\<lambda>r. conn_id r = cid) (connections db) \<longrightarrow>
        delete_connection cid db = (False, db))"
proof (intro conjI impI)
  let ?db1 = "snd (delete_connection cid db)"
  have "fst (delete_connection cid ?db1) = list_ex (\<lambda>r. conn_id r = cid) (connections db)"
    unfolding delete_connection_fst delete_connection_connections rowcount_positive
    by (rule deactivated_list_ex)
  moreover have "snd (delete_connection cid ?db1) = ?db1"
    unfolding delete_connection_snd [of cid ?db1] delete_connection_connections deactivate_twice
    unfolding delete_connection_snd by simp
  ultimately show "delete_connection cid ?db1
      = (list_ex (\<lambda>r. conn_id r = cid) (connections db), ?db1)"
    by (simp add: prod_eq_iff)
next
  show "get_connection_by_id cid (snd (delete_connection cid db)) = None"
    unfolding get_connection_by_id_def delete_connection_connections
    by (rule deactivated_not_found)
next
  show "filter (\<lambda>r. conn_id r = cid)
        (get_connections_by_channel ch (snd (delete_connection cid db))) = []"
    unfolding get_connections_by_channel_def delete_connection_connections
    by (rule deactivated_absent)
next
  assume "\<not> list_ex (\<lambda>r. conn_id r = cid) (connections db)"
  from deactivate_missing [OF this]
  show "delete_connection cid db = (False, db)"
    by (simp add: delete_connection_def Let_def)
qed

text \<open>
  Claim C7 as stated fails: with one connection of id 1 in the table, the second
  \<open>delete_connection 1\<close> answers true, not false.
\<close>

theorem delete_connection_second_call_counterexample:
  "fst (delete_connection 1 (snd (delete_connection 1 one_connection))) = True"
  by (simp add: one_connection_def delete_connection_def create_connection_def init_db_def Let_def)

text \<open>The amended claim at concrete inputs: the missing id 5 and the existing id 1.\<close>

theorem delete_connection_idempotent_witness:
  "\<not> list_ex (\<lambda>r. conn_id r = 5) (connections one_connection)
   \<and> delete_connection 5 one_connection = (False, one_connection)
   \<and> delete_connection 1 (snd (delete_connection 1 one_connection))
       = (True, snd (delete_connection 1 one_connection))
   \<and> get_connection_by_id 1 one_connection \<noteq> None
   \<and> get_connection_by_id 1 (snd (delete_connection 1 one_connection)) = None"
proof (intro conjI)
  show h: "\<not> list_ex (\<lambda>r. conn_id r = 5) (connections one_connection)"
    by (simp add: one_connection_def create_connection_def init_db_def Let_def)
  note a = delete_connection_idempotent [of 5 one_connection 10]
  note b = delete_connection_idempotent [of 1 one_connection 10]
  have e: "list_ex (\<lambda>r. conn_id r = 1) (connections one_connection) = True"
    by (simp add: one_connection_def create_connection_def init_db_def Let_def)
  show "delete_connection 5 one_connection = (False, one_connection)"
    by (rule a [THEN conjunct2, THEN conjunct2, THEN conjunct2, rule_format, OF h])
  show "delete_connection 1 (snd (delete_connection 1 one_connection))
       = (True, snd (delete_connection 1 one_connection))"
    by (rule b [THEN conjunct1, unfolded e])
  show "get_connection_by_id 1 one_connection \<noteq> None"
    by (simp add: one_connection_def create_connection_def init_db_def Let_def
          get_connection_by_id_def)
  show "get_connection_by_id 1 (snd (delete_connection 1 one_connection)) = None"
    by (rule b [THEN conjunct2, THEN conjunct1])
qed

subsection \<open>Rows of the connections table are never removed\<close>

lemma forget_active_False: "forget_active (x\<lparr>is_active := False\<rparr>) = forget_active x"
  by (simp add: forget_active_def)

lemma forget_active_deactivated:
  "map forget_active (map (\<lambda>r. if P r then r\<lparr>is_active := False\<rparr> else r) xs)
     = map forget_active xs"
  by (induction xs) (simp_all add: forget_active_def)

lemma deactivated_list_all2:
  "list_all2 (\<lambda>r r'. r' = r \<or> r' = r\<lparr>is_active := False\<rparr>) xs
     (map (\<lambda>r. if P r then r\<lparr>is_active := False\<rparr> else r) xs)"
  by (induction xs) simp_all

lemma deactivate_server_connections_connections:
  "connections (deactivate_server_connections sid db)
     = map (\<lambda>r. if server1_id r = sid \<or> server2_id r = sid
                 then r\<lparr>is_active := False\<rparr> else r) (connections db)"
  by (simp add: deactivate_server_connections_def)

lemma create_connection_connections:
  "\<exists>row. connections (snd (create_connection now s1 c1 s2 c2 name creator descr db))
     = connections db @ [row]"
  by (simp add: create_connection_def Let_def)

lemma track_message_spam_connections:
  "connections (snd (track_message_spam cfg now u s c db)) = connections db"
  by (simp add: track_message_spam_def Let_def split: option.split)

lemma get_server_settings_connections:
  "connections (snd (get_server_settings now sid db)) = connections db"
  by (simp add: get_server_settings_def create_server_settings_def split: option.split)

lemma exec_op_connections:
  "map forget_active (take (length (connections db)) (connections (exec_op cfg now op db)))
     = map forget_active (connections db)"
proof (cases op)
  case (CreateConnection s1 c1 s2 c2 name creator descr)
  obtain row where "connections (snd (create_connection now s1 c1 s2 c2 name creator descr db))
     = connections db @ [row]"
    using create_connection_connections by blast
  with CreateConnection show ?thesis by simp
next
  case (DeleteConnection cid)
  then show ?thesis
    by (simp add: delete_connection_connections forget_active_False)
next
  case (DeactivateServerConnections sid)
  then show ?thesis
    by (simp add: deactivate_server_connections_connections forget_active_False)
next
  case (LogMessage orig fwd author cid hash)
  then show ?thesis by (simp add: log_message_def Let_def)
next
  case (CreateServerSettings sid)
  then show ?thesis by (simp add: create_server_settings_def)
next
  case (GetServerSettings sid)
  then show ?thesis by (simp add: get_server_settings_connections)
next
  case (UpdateServerSetting sid v)
  then show ?thesis by (simp add: update_server_setting_def)
next
  case (TrackMessageSpam u s c)
  then show ?thesis by (simp add: track_message_spam_connections)
next
  case (CleanupOldData days)
  then show ?thesis by (simp add: cleanup_old_data_def)
qed

lemma exec_op_length: "length (connections db) \<le> length (connections (exec_op cfg now op db))"
proof -
  have "length (map forget_active (take (length (connections db)) (connections (exec_op cfg now op db))))
      = length (map forget_active (connections db))"
    by (simp only: exec_op_connections)
  then show ?thesis by simp
qed

lemma exec_ops_connections:
  "map forget_active (take (length (connections db)) (connections (exec_ops cfg ops db)))
     = map forget_active (connections db)"
proof (induction ops arbitrary: db)
  case Nil
  show ?case by simp
next
  case (Cons a ops)
  obtain now op where a: "a = (now, op)" by (cases a)
  define db1 where "db1 = exec_op cfg now op db"
  define n where "n = length (connections db)"
  define ys where "ys = connections (exec_ops cfg ops db1)"
  have le: "n \<le> length (connections db1)"
    unfolding n_def db1_def by (rule exec_op_length)
  have ih: "map forget_active (take (length (connections db1)) ys)
              = map forget_active (connections db1)"
    unfolding ys_def by (rule Cons.IH)
  have "take n (take (length (connections db1)) ys) = take n ys"
    using le by (simp add: min_def)
  then have "map forget_active (take n ys)
          = take n (map forget_active (take (length (connections db1)) ys))"
    by (simp add: take_map)
  also have "\<dots> = take n (map forget_active (connections db1))"
    by (simp only: ih)
  also have "\<dots> = map forget_active (take n (connections db1))"
    by (simp add: take_map)
  also have "\<dots> = map forget_active (connections db)"
    unfolding n_def db1_def by (rule exec_op_connections)
  finally show ?case by (simp add: a ys_def db1_def n_def)
qed

text \<open>
  Claim C9. No operation removes a row of \<open>connections\<close>: after any run of writing
  operations the rows that were there are still there, in place, the same up to
  \<open>is_active\<close>. \<open>delete_connection\<close> and \<open>deactivate_server_connections\<close> leave each
  row as it was or set its \<open>is_active\<close> to false. \<open>cleanup_old_data\<close> leaves
  \<open>connections\<close> and \<open>message_history\<close> as they were and only drops rows of
  \<open>spam_tracking\<close>.
\<close>

theorem connections_never_removed:
  "map forget_active (take (length (connections db)) (connections (exec_ops cfg ops db)))
     = map forget_active (connections db)
   \<and> length (connections db) \<le> length (connections (exec_ops cfg ops db))
   \<and> list_all2 (\<lambda>r r'. r' = r \<or> r' = r\<lparr>is_active := False\<rparr>)
        (connections db) (connections (snd (delete_connection cid db)))
   \<and> list_all2 (\<lambda>r r'. r' = r \<or> r' = r\<lparr>is_active := False\<rparr>)
        (connections db) (connections (deactivate_server_connections sid db))
   \<and> connections (cleanup_old_data now days db) = connections db
   \<and> message_history (cleanup_old_data now days db) = message_history db
   \<and> set (spam_tracking (cleanup_old_data now days db)) \<subseteq> set (spam_tracking db)"
proof (intro conjI)
  show a: "map forget_active (take (length (connections db)) (connections (exec_ops cfg ops db)))
     = map forget_active (connections db)"
    by (rule exec_ops_connections)
  have "length (map forget_active (take (length (connections db))
            (connections (exec_ops cfg ops db))))
      = length (map forget_active (connections db))"
    by (simp only: a)
  then show "length (connections db) \<le> length (connections (exec_ops cfg ops db))"
    by simp
  show "list_all2 (\<lambda>r r'. r' = r \<or> r' = r\<lparr>is_active := False\<rparr>)
        (connections db) (connections (snd (delete_connection cid db)))"
    unfolding delete_connection_connections by (rule deactivated_list_all2)
  show "list_all2 (\<lambda>r r'. r' = r \<or> r' = r\<lparr>is_active := False\<rparr>)
        (connections db) (connections (deactivate_server_connections sid db))"
    unfolding deactivate_server_connections_connections by (rule deactivated_list_all2)
  show "connections (cleanup_old_data now days db) = connections db"
    by (simp add: cleanup_old_data_def)
  show "message_history (cleanup_old_data now days db) = message_history db"
    by (simp add: cleanup_old_data_def)
  show "set (spam_tracking (cleanup_old_data now days db)) \<subseteq> set (spam_tracking db)"
    by (simp add: cleanup_old_data_def)
qed

text \<open>
  The claim on a run that soft-deletes the only connection, sweeps, deactivates a server
  and creates a connection: the first row is still the row with id 1.
\<close>

theorem connections_never_removed_witness:
  "map conn_id (connections (exec_ops default_config
       [(5, DeleteConnection 1), (9, CleanupOldData 30), (9, DeactivateServerConnections 2),
        (12, CreateConnection 3 30 4 40 (lit ''hall'') 8 None)] one_connection)) = [1, 2]
   \<and> map forget_active (take 1 (connections (exec_ops default_config
       [(5, DeleteConnection 1), (9, CleanupOldData 30), (9, DeactivateServerConnections 2),
        (12, CreateConnection 3 30 4 40 (lit ''hall'') 8 None)] one_connection)))
       = map forget_active (connections one_connection)"
proof -
  have n: "length (connections one_connection) = 1"
    by (simp add: one_connection_def create_connection_def init_db_def Let_def)
  have ids: "map conn_id (connections (exec_ops default_config
       [(5, DeleteConnection 1), (9, CleanupOldData 30), (9, DeactivateServerConnections 2),
        (12, CreateConnection 3 30 4 40 (lit ''hall'') 8 None)] one_connection)) = [1, 2]"
    by (simp add: one_connection_def create_connection_def init_db_def Let_def
          delete_connection_def cleanup_old_data_def deactivate_server_connections_def)
  note t = connections_never_removed [of one_connection default_config
       "[(5, DeleteConnection 1), (9, CleanupOldData 30), (9, DeactivateServerConnections 2),
        (12, CreateConnection 3 30 4 40 (lit ''hall'') 8 None)]" 1 2 9 30, THEN conjunct1,
       unfolded n]
  from ids t show ?thesis by (intro conjI)
qed

subsection \<open>The content filter\<close>

lemma three_mentions:
  "contains_mass_mentions (lit ''@everyone @everyone @everyone'') 3"
  by (simp add: contains_mass_mentions_def findall_def mention_pattern_def lower_def
        lower_cp_def lit_def)

text \<open>
  Claim C8, as amended. For every text and every combination of the four flags,
  \<open>filter_message\<close> reports the profanity, link, spam and token reasons exactly when
  the flag is on and the check fires, and the mass-mention reason whenever that check
  fires, in this order; the text is allowed exactly when no reason is reported. With
  every flag off a text is allowed exactly when it has fewer than three mass mentions.
\<close>

theorem filter_message_flags:
  "snd (filter_message cfg text check_profanity check_links check_spam check_tokens)
     = (if check_profanity \<and> contains_profanity cfg text then [Profanity] else [])
       @ (if check_links \<and> contains_blocked_links cfg text then [SuspiciousLinks] else [])
       @ (if check_spam \<and> is_spam_pattern text then [SpamPattern] else [])
       @ (if contains_mass_mentions text 3 then [MassMentions] else [])
       @ (if check_tokens \<and> contains_discord_token text then [DiscordToken] else [])
   \<and> fst (filter_message cfg text check_profanity check_links check_spam check_tokens)
       = (snd (filter_message cfg text check_profanity check_links check_spam check_tokens) = [])
   \<and> filter_message cfg text False False False False
       = (if contains_mass_mentions text 3 then (False, [MassMentions]) else (True, []))"
  by (simp add: filter_message_def contains_profanity_def contains_blocked_links_def
        is_spam_pattern_def contains_mass_mentions_def contains_discord_token_def Let_def)

text \<open>
  Claim C8 as stated fails: with every flag off, a text with three mass mentions is
  reported as not allowed, with one reason.
\<close>

theorem filter_message_all_flags_off_counterexample:
  "filter_message default_config (lit ''@everyone @everyone @everyone'') False False False False
     = (False, [MassMentions])"
proof -
  have "lit ''@everyone @everyone @everyone'' \<noteq> []" by (simp add: lit_def)
  with three_mentions show ?thesis by (simp add: filter_message_def)
qed

text \<open>The amended claim at a text with three mass mentions.\<close>

theorem filter_message_flags_witness:
  "filter_message default_config (lit ''@everyone @everyone @everyone'') False False False False
     = (False, [MassMentions])
   \<and> snd (filter_message default_config (lit ''@everyone @everyone @everyone'')
             True False False False)
     = [MassMentions]"
proof -
  have p: "contains_profanity default_config (lit ''@everyone @everyone @everyone'') = False"
    by (simp add: contains_profanity_def default_config_def)
  note t = filter_message_flags [of default_config "lit ''@everyone @everyone @everyone''"
      True False False False]
  from t p three_mentions show ?thesis by simp
qed

subsection \<open>The quota of connections per server\<close>

lemma count_after_create:
  "get_server_connection_count sid (snd (create_connection now s1 c1 s2 c2 name creator descr d))
     = get_server_connection_count sid d + (if s1 = sid \<or> s2 = sid then 1 else 0)"
  by (simp add: create_connection_def get_server_connection_count_def Let_def)

lemma create_connection_changes: "snd (create_connection now s1 c1 s2 c2 name creator descr d) \<noteq> d"
proof
  assume "snd (create_connection now s1 c1 s2 c2 name creator descr d) = d"
  then have "length (connections (snd (create_connection now s1 c1 s2 c2 name creator descr d)))
      = length (connections d)" by simp
  then show False by (simp add: create_connection_def Let_def)
qed

text \<open>
  Claim C3, as amended. \<open>connect create\<close> answers with the quota error exactly when
  the invoking server already has \<open>MAX_CONNECTIONS_PER_SERVER\<close> or more active
  connections, and then writes nothing; the count of the target server is not consulted.
  A create that writes leaves the invoking server with at most
  \<open>MAX_CONNECTIONS_PER_SERVER\<close> active connections.
\<close>

theorem create_quota_invoking_server:
  "(fst (cmd_create_connection cfg now notified ctx target_channel name d) = LimitExceeded)
     = (MAX_CONNECTIONS_PER_SERVER cfg \<le> get_server_connection_count (ctx_guild_id ctx) d)
   \<and> (MAX_CONNECTIONS_PER_SERVER cfg \<le> get_server_connection_count (ctx_guild_id ctx) d \<longrightarrow>
        snd (cmd_create_connection cfg now notified ctx target_channel name d) = d)
   \<and> (snd (cmd_create_connection cfg now notified ctx target_channel name d) \<noteq> d \<longrightarrow>
        get_server_connection_count (ctx_guild_id ctx)
            (snd (cmd_create_connection cfg now notified ctx target_channel name d))
          \<le> MAX_CONNECTIONS_PER_SERVER cfg)"
proof (cases "MAX_CONNECTIONS_PER_SERVER cfg \<le> get_server_connection_count (ctx_guild_id ctx) d")
  case True
  then have "cmd_create_connection cfg now notified ctx target_channel name d = (LimitExceeded, d)"
    by (simp add: cmd_create_connection_def)
  with True show ?thesis by simp
next
  case False
  define dup where "dup = find (\<lambda>conn. channel1_id conn = tc_id target_channel
                                     \<or> channel2_id conn = tc_id target_channel)
                         (get_connections_by_channel (ctx_channel_id ctx) d)"
  define missing where "missing = filter (\<lambda>perm. perm \<notin> set (tc_permissions target_channel))
                                    required_perms"
  define descr where "descr = Some ([1057, 1086, 1077, 1076, 1080, 1085, 1077, 1085, 1080,
                                       1077, 32, 1084, 1077, 1078, 1076, 1091, 32]
                                      @ ctx_guild_name ctx @ [32, 1080, 32]
                                      @ tc_guild_name target_channel)"
  define created where "created = create_connection now (ctx_guild_id ctx) (ctx_channel_id ctx)
                               (tc_guild_id target_channel) (tc_id target_channel) name
                               (ctx_author_id ctx) descr d"
  have r: "cmd_create_connection cfg now notified ctx target_channel name d
      = (if tc_guild_id target_channel = ctx_guild_id ctx then (SameServer, d)
         else if missing \<noteq> [] then (MissingPermissions missing, d)
         else case dup of
                Some conn \<Rightarrow> (AlreadyExists (conn_id conn), d)
              | None \<Rightarrow> (if notified then Created (fst created) else CreateError, snd created))"
    using False
    by (simp add: cmd_create_connection_def Let_def dup_def missing_def descr_def created_def
          split: prod.split option.split)
  have c: "get_server_connection_count (ctx_guild_id ctx) (snd created)
             = get_server_connection_count (ctx_guild_id ctx) d + 1"
    unfolding created_def by (simp add: count_after_create)
  have 1: "fst (cmd_create_connection cfg now notified ctx target_channel name d) \<noteq> LimitExceeded"
    unfolding r by (simp split: option.split)
  have 3: "get_server_connection_count (ctx_guild_id ctx)
            (snd (cmd_create_connection cfg now notified ctx target_channel name d))
          \<le> MAX_CONNECTIONS_PER_SERVER cfg"
    unfolding r using False c by (simp split: option.split)
  from False 1 3 show ?thesis by simp
qed

text \<open>
  Claim C3 as stated fails: with the default limit of 10, after ten servers have linked
  to one channel of server 99 that server counts 10 active connections; the create of an
  eleventh server to the same channel succeeds, and server 99 then counts 11.
\<close>

theorem create_quota_target_counterexample:
  "MAX_CONNECTIONS_PER_SERVER default_config = 10
   \<and> get_server_connection_count 99 ten_links = 10
   \<and> fst (cmd_create_connection default_config 0 True (spoke 11) hub (lit ''hub'') ten_links)
       = Created 11
   \<and> get_server_connection_count 99 (link 11 ten_links) = 11"
  by (simp add: ten_links_def link_def cmd_create_connection_def default_config_def hub_def
        spoke_def required_perms_def get_server_connection_count_def
        get_connections_by_channel_def create_connection_def init_db_def Let_def)

lemma ten_links_sizes:
  "length (connections ten_links) = 10 \<and> length (connections (link 11 ten_links)) = 11"
  by (simp add: ten_links_def link_def cmd_create_connection_def default_config_def hub_def
        spoke_def required_perms_def get_server_connection_count_def
        get_connections_by_channel_def create_connection_def init_db_def Let_def)

lemma hub_count: "get_server_connection_count 99 ten_links = 10"
  by (simp add: ten_links_def link_def cmd_create_connection_def default_config_def hub_def
        spoke_def required_perms_def get_server_connection_count_def
        get_connections_by_channel_def create_connection_def init_db_def Let_def)

text \<open>
  The amended claim at server 99 as the invoking server, which is at its limit, and at
  server 11, whose create writes.
\<close>

theorem create_quota_invoking_server_witness:
  "MAX_CONNECTIONS_PER_SERVER default_config \<le> get_server_connection_count 99 ten_links
   \<and> cmd_create_connection default_config 0 True
         \<lparr>ctx_guild_id = 99, ctx_guild_name = lit ''hub'', ctx_channel_id = 500,
            ctx_author_id = 7\<rparr>
         \<lparr>tc_id = 1012, tc_guild_id = 12, tc_guild_name = lit ''far'',
            tc_permissions = required_perms\<rparr>
         (lit ''far'') ten_links
       = (LimitExceeded, ten_links)
   \<and> snd (cmd_create_connection default_config 0 True (spoke 11) hub (lit ''hub'') ten_links)
       \<noteq> ten_links
   \<and> get_server_connection_count 11
         (snd (cmd_create_connection default_config 0 True (spoke 11) hub (lit ''hub'')
                 ten_links))
       \<le> MAX_CONNECTIONS_PER_SERVER default_config"
proof (intro conjI)
  show full: "MAX_CONNECTIONS_PER_SERVER default_config
                \<le> get_server_connection_count 99 ten_links"
    by (simp add: hub_count default_config_def)
  note a = create_quota_invoking_server [of default_config 0 True
      "\<lparr>ctx_guild_id = 99, ctx_guild_name = lit ''hub'', ctx_channel_id = 500,
         ctx_author_id = 7\<rparr>"
      "\<lparr>tc_id = 1012, tc_guild_id = 12, tc_guild_name = lit ''far'',
         tc_permissions = required_perms\<rparr>" "lit ''far''" ten_links, simplified]
  from a full show "cmd_create_connection default_config 0 True
         \<lparr>ctx_guild_id = 99, ctx_guild_name = lit ''hub'', ctx_channel_id = 500,
            ctx_author_id = 7\<rparr>
         \<lparr>tc_id = 1012, tc_guild_id = 12, tc_guild_name = lit ''far'',
            tc_permissions = required_perms\<rparr>
         (lit ''far'') ten_links
       = (LimitExceeded, ten_links)"
    by (simp add: prod_eq_iff)
  have "length (connections (link 11 ten_links)) \<noteq> length (connections ten_links)"
    using ten_links_sizes by simp
  then have "link 11 ten_links \<noteq> ten_links" by auto
  then show changed: "snd (cmd_create_connection default_config 0 True (spoke 11) hub
                            (lit ''hub'') ten_links) \<noteq> ten_links"
    by (simp add: link_def)
  note b = create_quota_invoking_server [of default_config 0 True "spoke 11" hub
      "lit ''hub''" ten_links, THEN conjunct2, THEN conjunct2, rule_format, OF changed]
  then show "get_server_connection_count 11
         (snd (cmd_create_connection default_config 0 True (spoke 11) hub (lit ''hub'')
                 ten_links))
       \<le> MAX_CONNECTIONS_PER_SERVER default_config"
    by (simp add: spoke_def)
qed

subsection \<open>The relay: what one forward and the whole listener do\<close>

lemma make_file_raises: "make_file filename data = Inl NameError"
  by (simp add: make_file_def module_names_def)

lemma collect_files_none: "fst (collect_files cfg e atts files lg) = files"
  by (induction atts arbitrary: lg) (simp_all add: make_file_raises split: sum.split)

lemma forward_try_undeliverable:
  "\<not> deliverable e m conn \<Longrightarrow>
   outbox (snd (forward_try cfg e now m conn w)) = outbox w
   \<and> delivered (snd (forward_try cfg e now m conn w)) = delivered w
   \<and> world_db (snd (forward_try cfg e now m conn w)) = world_db w
   \<and> fst (forward_try cfg e now m conn w) = None"
  by (auto simp: forward_try_def deliverable_def Let_def)

lemma forward_try_deliverable:
  assumes "deliverable e m conn"
  shows "outbox (snd (forward_try cfg e now m conn w))
           = outbox w @ [(target_channel_id m conn, make_embed m conn, [])]"
    and "fst (forward_try cfg e now m conn w)
           = (case channel_send e (target_channel_id m conn) (make_embed m conn) [] of
                Inl x \<Rightarrow> Some x | Inr i \<Rightarrow> None)"
    and "delivered (snd (forward_try cfg e now m conn w))
           = delivered w
             @ (case channel_send e (target_channel_id m conn) (make_embed m conn) [] of
                  Inl x \<Rightarrow> [] | Inr i \<Rightarrow> [(target_channel_id m conn, i)])"
    and "world_db (snd (forward_try cfg e now m conn w))
           = (case channel_send e (target_channel_id m conn) (make_embed m conn) [] of
                Inl x \<Rightarrow> world_db w
              | Inr i \<Rightarrow>
                  log_message now (message_id m) i (author_uid m) (conn_id conn)
                    (if content m \<noteq> [] then Some (md5_hexdigest e (content m)) else None)
                    (world_db w))"
proof -
  obtain files lg where c: "collect_files cfg e (attachments m) [] [] = (files, lg)"
    by (cases "collect_files cfg e (attachments m) [] []")
  have f: "files = []"
    using collect_files_none [of cfg e "attachments m" "[]" "[]"] c by simp
  show "outbox (snd (forward_try cfg e now m conn w))
           = outbox w @ [(target_channel_id m conn, make_embed m conn, [])]"
    using assms c f by (simp add: forward_try_def deliverable_def Let_def split: sum.split)
  show "fst (forward_try cfg e now m conn w)
           = (case channel_send e (target_channel_id m conn) (make_embed m conn) [] of
                Inl x \<Rightarrow> Some x | Inr i \<Rightarrow> None)"
    using assms c f by (simp add: forward_try_def deliverable_def Let_def split: sum.split)
  show "delivered (snd (forward_try cfg e now m conn w))
           = delivered w
             @ (case channel_send e (target_channel_id m conn) (make_embed m conn) [] of
                  Inl x \<Rightarrow> [] | Inr i \<Rightarrow> [(target_channel_id m conn, i)])"
    using assms c f by (simp add: forward_try_def deliverable_def Let_def split: sum.split)
  show "world_db (snd (forward_try cfg e now m conn w))
           = (case channel_send e (target_channel_id m conn) (make_embed m conn) [] of
                Inl x \<Rightarrow> world_db w
              | Inr i \<Rightarrow>
                  log_message now (message_id m) i (author_uid m) (conn_id conn)
                    (if content m \<noteq> [] then Some (md5_hexdigest e (content m)) else None)
                    (world_db w))"
    using assms c f by (simp add: forward_try_def deliverable_def Let_def split: sum.split)
qed


lemma forward_message_outbox:
  "outbox (forward_message cfg e now m conn w)
     = outbox w @ (if deliverable e m conn
                   then [(target_channel_id m conn, make_embed m conn, [])] else [])"
proof -
  have "outbox (forward_message cfg e now m conn w) = outbox (snd (forward_try cfg e now m conn w))"
    by (simp add: forward_message_def split: prod.split option.split)
  then show ?thesis
    using forward_try_undeliverable [of e m conn cfg now w]
      forward_try_deliverable(1) [of e m conn cfg now w]
    by (cases "deliverable e m conn") simp_all
qed

lemma forward_message_delivered:
  "delivered (forward_message cfg e now m conn w)
     = delivered w
       @ (if deliverable e m conn
          then (case channel_send e (target_channel_id m conn) (make_embed m conn) [] of
                  Inl x \<Rightarrow> [] | Inr i \<Rightarrow> [(target_channel_id m conn, i)])
          else [])"
proof -
  have "delivered (forward_message cfg e now m conn w)
          = delivered (snd (forward_try cfg e now m conn w))"
    by (simp add: forward_message_def split: prod.split option.split)
  then show ?thesis
    using forward_try_undeliverable [of e m conn cfg now w]
      forward_try_deliverable(3) [of e m conn cfg now w]
    by (cases "deliverable e m conn") simp_all
qed

lemma forward_message_db:
  "world_db (forward_message cfg e now m conn w)
     = (if deliverable e m conn
        then (case channel_send e (target_channel_id m conn) (make_embed m conn) [] of
                Inl x \<Rightarrow> world_db w
              | Inr i \<Rightarrow>
                  log_message now (message_id m) i (author_uid m) (conn_id conn)
                    (if content m \<noteq> [] then Some (md5_hexdigest e (content m)) else None)
                    (world_db w))
        else world_db w)"
proof -
  have "world_db (forward_message cfg e now m conn w)
          = world_db (snd (forward_try cfg e now m conn w))"
    by (simp add: forward_message_def split: prod.split option.split)
  then show ?thesis
    using forward_try_undeliverable [of e m conn cfg now w]
      forward_try_deliverable(4) [of e m conn cfg now w]
    by (cases "deliverable e m conn") simp_all
qed

lemma forward_try_logged: "\<exists>l. logged (snd (forward_try cfg e now m conn w)) = logged w @ l"
  by (simp add: forward_try_def Let_def split: prod.split sum.split)

lemma forward_message_logged_grows:
  "set (logged w) \<subseteq> set (logged (forward_message cfg e now m conn w))"
proof -
  obtain l where l: "logged (snd (forward_try cfg e now m conn w)) = logged w @ l"
    using forward_try_logged by blast
  obtain r w' where r: "forward_try cfg e now m conn w = (r, w')"
    by (cases "forward_try cfg e now m conn w")
  with l have "logged w' = logged w @ l" by simp
  with r show ?thesis by (cases r) (auto simp: forward_message_def)
qed

lemma forward_message_logged_failure:
  assumes "deliverable e m conn"
    and "channel_send e (target_channel_id m conn) (make_embed m conn) [] = Inl x"
  shows "except_clause (target_channel_id m conn) x
           \<in> set (logged (forward_message cfg e now m conn w))"
proof -
  have "fst (forward_try cfg e now m conn w) = Some x"
    using forward_try_deliverable(2) [OF assms(1), of cfg now w] assms(2) by simp
  then obtain w' where "forward_try cfg e now m conn w = (Some x, w')"
    by (cases "forward_try cfg e now m conn w") simp
  then show ?thesis by (simp add: forward_message_def)
qed

lemma forward_all_logged_grows:
  "set (logged w) \<subseteq> set (logged (forward_all cfg e now m conns w))"
proof (induction conns arbitrary: w)
  case Nil
  show ?case by simp
next
  case (Cons conn conns)
  have "set (logged w) \<subseteq> set (logged (forward_message cfg e now m conn w))"
    by (rule forward_message_logged_grows)
  also have "\<dots> \<subseteq> set (logged (forward_all cfg e now m conns
                                  (forward_message cfg e now m conn w)))"
    by (rule Cons.IH)
  finally show ?case by simp
qed

lemma forward_all_outbox:
  "outbox (forward_all cfg e now m conns w)
     = outbox w @ map (\<lambda>conn. (target_channel_id m conn, make_embed m conn, []))
                    (filter (deliverable e m) conns)"
  by (induction conns arbitrary: w) (simp_all add: forward_message_outbox)

lemma forward_all_delivered:
  "delivered (forward_all cfg e now m conns w)
     = delivered w
       @ concat (map (\<lambda>conn. case channel_send e (target_channel_id m conn)
                                     (make_embed m conn) [] of
                                Inl x \<Rightarrow> [] | Inr i \<Rightarrow> [(target_channel_id m conn, i)])
                   (filter (deliverable e m) conns))"
  by (induction conns arbitrary: w) (simp_all add: forward_message_delivered)

lemma forward_all_logged_failure:
  "conn \<in> set conns \<Longrightarrow> deliverable e m conn \<Longrightarrow>
   channel_send e (target_channel_id m conn) (make_embed m conn) [] = Inl x \<Longrightarrow>
   except_clause (target_channel_id m conn) x
     \<in> set (logged (forward_all cfg e now m conns w))"
proof (induction conns arbitrary: w)
  case Nil
  then show ?case by simp
next
  case (Cons c conns)
  show ?case
  proof (cases "conn = c")
    case True
    have "except_clause (target_channel_id m conn) x
            \<in> set (logged (forward_message cfg e now m conn w))"
      using Cons.prems(2,3) by (rule forward_message_logged_failure)
    then show ?thesis
      using forward_all_logged_grows [of "forward_message cfg e now m conn w" cfg e now m conns]
        True by auto
  next
    case False
    with Cons.prems(1) have "conn \<in> set conns" by simp
    then show ?thesis
      using Cons.IH Cons.prems(2,3) by simp
  qed
qed

lemma get_server_settings_keeps:
  "connections (snd (get_server_settings now sid d)) = connections d"
  "message_history (snd (get_server_settings now sid d)) = message_history d"
  "spam_tracking (snd (get_server_settings now sid d)) = spam_tracking d"
  "spam_tracking_seq (snd (get_server_settings now sid d)) = spam_tracking_seq d"
  by (simp_all add: get_server_settings_def create_server_settings_def split: option.split)

lemma track_message_spam_keeps:
  "connections (snd (track_message_spam cfg now u s c d)) = connections d"
  "message_history (snd (track_message_spam cfg now u s c d)) = message_history d"
  by (simp_all add: track_message_spam_def Let_def split: option.split)

lemma spam_stage_keeps:
  "connections (snd (spam_stage cfg now m w)) = connections (world_db w)"
  "message_history (snd (spam_stage cfg now m w)) = message_history (world_db w)"
  by (simp_all add: spam_stage_def settings_stage_def get_server_settings_keeps
        track_message_spam_keeps)

lemma settings_stage_keeps:
  "message_history (snd (settings_stage now m w)) = message_history (world_db w)"
  by (simp add: settings_stage_def get_server_settings_keeps)

lemma spam_stage_channel:
  "get_connections_by_channel ch (snd (spam_stage cfg now m w))
     = get_connections_by_channel ch (world_db w)"
  by (simp add: get_connections_by_channel_def spam_stage_keeps)

lemma on_message_unfold:
  "on_message cfg e now m w =
     (if author_bot m \<or> type_of_message m \<noteq> DefaultType then w
      else if startswith (content m) (PREFIX cfg) then w
      else if \<not> enabled (fst (settings_stage now m w))
        then w\<lparr>world_db := snd (settings_stage now m w)\<rparr>
      else if fst (spam_stage cfg now m w) then w\<lparr>world_db := snd (spam_stage cfg now m w)\<rparr>
      else if get_connections_by_channel (channel_id m) (world_db w) = []
        then w\<lparr>world_db := snd (spam_stage cfg now m w)\<rparr>
      else if profanity_filter (fst (settings_stage now m w))
              \<and> contains_profanity cfg (content m)
        then w\<lparr>world_db := snd (spam_stage cfg now m w)\<rparr>
      else if contains_blocked_links cfg (content m)
        then w\<lparr>world_db := snd (spam_stage cfg now m w)\<rparr>
      else forward_all cfg e now m (get_connections_by_channel (channel_id m) (world_db w))
             (w\<lparr>world_db := snd (spam_stage cfg now m w)\<rparr>))"
proof -
  have "on_message cfg e now m w =
     (if author_bot m \<or> type_of_message m \<noteq> DefaultType then w
      else if startswith (content m) (PREFIX cfg) then w
      else if \<not> enabled (fst (settings_stage now m w))
        then w\<lparr>world_db := snd (settings_stage now m w)\<rparr>
      else if fst (spam_stage cfg now m w) then w\<lparr>world_db := snd (spam_stage cfg now m w)\<rparr>
      else if get_connections_by_channel (channel_id m) (snd (spam_stage cfg now m w)) = []
        then w\<lparr>world_db := snd (spam_stage cfg now m w)\<rparr>
      else if profanity_filter (fst (settings_stage now m w))
              \<and> contains_profanity cfg (content m)
        then w\<lparr>world_db := snd (spam_stage cfg now m w)\<rparr>
      else if contains_blocked_links cfg (content m)
        then w\<lparr>world_db := snd (spam_stage cfg now m w)\<rparr>
      else forward_all cfg e now m
             (get_connections_by_channel (channel_id m) (snd (spam_stage cfg now m w)))
             (w\<lparr>world_db := snd (spam_stage cfg now m w)\<rparr>))"
    by (simp add: on_message_def settings_stage_def spam_stage_def Let_def split: prod.split)
  then show ?thesis by (simp only: spam_stage_channel)
qed

lemma on_message_dropped:
  assumes "(profanity_filter (fst (settings_stage now m w)) \<and> contains_profanity cfg (content m))
           \<or> contains_blocked_links cfg (content m)"
  shows "outbox (on_message cfg e now m w) = outbox w"
    and "delivered (on_message cfg e now m w) = delivered w"
    and "message_history (world_db (on_message cfg e now m w)) = message_history (world_db w)"
  using assms
  by (auto simp: on_message_unfold spam_stage_keeps settings_stage_keeps)

lemma forward_all_spam_tracking:
  "spam_tracking (world_db (forward_all cfg e now m conns w)) = spam_tracking (world_db w)"
  by (induction conns arbitrary: w)
     (simp_all add: forward_message_db log_message_def Let_def split: sum.split)

subsection \<open>Failures of one forward\<close>

text \<open>
  Claim C6. Whatever the sends answer, the loop over the connections of a message calls
  \<open>send\<close> once for each connection whose opposite channel is reachable and open, in
  the order of the connections, and for no other channel (no retry, no message to the
  sender); the sends that return are the deliveries; and each send that raises leaves
  the record of its \<open>except\<close> clause in the log. The loop itself returns a state: no
  exception of a forward leaves \<open>_forward_message\<close>.
\<close>

theorem forward_failures_contained:
  "outbox (forward_all cfg e now m conns w)
     = outbox w @ map (\<lambda>conn. (target_channel_id m conn, make_embed m conn, []))
                    (filter (deliverable e m) conns)
   \<and> delivered (forward_all cfg e now m conns w)
     = delivered w
       @ concat (map (\<lambda>conn. case channel_send e (target_channel_id m conn)
                                     (make_embed m conn) [] of
                                Inl x \<Rightarrow> [] | Inr i \<Rightarrow> [(target_channel_id m conn, i)])
                   (filter (deliverable e m) conns))
   \<and> (\<forall>conn \<in> set conns. \<forall>x.
         deliverable e m conn
         \<and> channel_send e (target_channel_id m conn) (make_embed m conn) [] = Inl x
         \<longrightarrow> except_clause (target_channel_id m conn) x
               \<in> set (logged (forward_all cfg e now m conns w)))"
  using forward_all_outbox [of cfg e now m conns w]
    forward_all_delivered [of cfg e now m conns w]
    forward_all_logged_failure [of _ conns e m _ cfg now w]
  by blast

lemma two_connections_by_channel:
  "get_connections_by_channel 10 two_connections = connections two_connections"
  "map conn_id (connections two_connections) = [1, 2]"
  "map (target_channel_id (post (lit ''hi''))) (connections two_connections) = [20, 30]"
  by (simp_all add: two_connections_def one_connection_def create_connection_def init_db_def
        Let_def get_connections_by_channel_def target_channel_id_def post_def)

text \<open>
  The claim with two connections, where the send for the first is forbidden: both sends
  are made, the second is delivered and the first is logged.
\<close>

theorem forward_failures_contained_witness:
  "map fst (outbox (forward_all default_config flaky_platform 60 (post (lit ''hi''))
       (get_connections_by_channel 10 two_connections) (world_of two_connections))) = [20, 30]
   \<and> delivered (forward_all default_config flaky_platform 60 (post (lit ''hi''))
       (get_connections_by_channel 10 two_connections) (world_of two_connections))
     = [(30, 9001)]
   \<and> (WARNING, ForbiddenCaught 20)
       \<in> set (logged (forward_all default_config flaky_platform 60 (post (lit ''hi''))
             (get_connections_by_channel 10 two_connections) (world_of two_connections)))"
proof -
  let ?m = "post (lit ''hi'')"
  let ?cs = "connections two_connections"
  let ?w = "world_of two_connections"
  note t = forward_failures_contained [of default_config flaky_platform 60 ?m ?cs ?w]
  obtain c1 c2 where cs: "?cs = [c1, c2]"
    and t1: "target_channel_id ?m c1 = 20" and t2: "target_channel_id ?m c2 = 30"
    using two_connections_by_channel(3)
    by (cases ?cs; cases "tl ?cs") (auto simp: Cons_eq_map_conv)
  have d: "deliverable flaky_platform ?m c1" "deliverable flaky_platform ?m c2"
    by (simp_all add: deliverable_def flaky_platform_def open_platform_def)
  have s1: "channel_send flaky_platform 20 emb fs = Inl Forbidden" for emb fs
    by (simp add: flaky_platform_def open_platform_def)
  have s2: "channel_send flaky_platform 30 emb fs = Inr 9001" for emb fs
    by (simp add: flaky_platform_def open_platform_def)
  have a: "map fst (outbox (forward_all default_config flaky_platform 60 ?m ?cs ?w)) = [20, 30]"
    using t [THEN conjunct1] cs d t1 t2 by (simp add: world_of_def)
  have b: "delivered (forward_all default_config flaky_platform 60 ?m ?cs ?w) = [(30, 9001)]"
    using t [THEN conjunct2, THEN conjunct1] cs d t1 t2 s1 s2 by (simp add: world_of_def)
  have "c1 \<in> set ?cs" using cs by simp
  with t [THEN conjunct2, THEN conjunct2] d(1) s1 t1
  have "except_clause 20 Forbidden
          \<in> set (logged (forward_all default_config flaky_platform 60 ?m ?cs ?w))"
    by fastforce
  then have c: "(WARNING, ForbiddenCaught 20)
          \<in> set (logged (forward_all default_config flaky_platform 60 ?m ?cs ?w))"
    by simp
  from a b c show ?thesis by (simp only: two_connections_by_channel(1)) 
qed

subsection \<open>The examples, evaluated\<close>

lemma settings_stage_fresh:
  "server_settings d = [] \<Longrightarrow>
   settings_stage t m (world_of d)
     = (default_settings t (guild_id m),
        d\<lparr>server_settings := [default_settings t (guild_id m)]\<rparr>)"
  by (simp add: settings_stage_def world_of_def get_server_settings_def
        create_server_settings_def)

lemma track_first:
  "spam_tracking d = [] \<Longrightarrow> fst (track_message_spam cfg t u s c d) = (1, False)"
  by (simp add: track_message_spam_def Let_def same_key_def)

lemma spam_stage_fresh:
  assumes "server_settings d = []" and "spam_tracking d = []"
  shows "fst (spam_stage cfg t m (world_of d)) = False"
proof -
  have "spam_tracking (snd (settings_stage t m (world_of d))) = []"
    using assms by (simp add: settings_stage_fresh)
  then show ?thesis by (simp add: spam_stage_def track_first)
qed

lemma one_connection_tables:
  "server_settings one_connection = []"
  "spam_tracking one_connection = []"
  "message_history one_connection = []"
  "get_connections_by_channel 10 one_connection = connections one_connection"
  "map (\<lambda>c. (conn_id c, channel1_id c, channel2_id c)) (connections one_connection)
     = [(1, 10, 20)]"
  by (simp_all add: one_connection_def create_connection_def init_db_def Let_def
        get_connections_by_channel_def)

lemma hi_no_links: "contains_blocked_links cfg (lit ''hi'') = False"
  by (simp add: contains_blocked_links_def findall_def url_pattern_def lit_def lower_def)

lemma no_profanity_default: "contains_profanity default_config body = False"
  by (simp add: contains_profanity_def default_config_def)

lemma bitly_with_scheme_blocked:
  "contains_blocked_links default_config (lit ''http://bit.ly/abc'')"
  by (simp add: contains_blocked_links_def findall_def url_pattern_def lit_def lower_def
        lower_cp_def url_char_def is_ascii_letter_def is_digit_def is_suspicious_url_def
        urlparse_def suspicious_domains_def default_config_def Let_def)

lemma bitly_bare_passes:
  "contains_blocked_links default_config (lit ''bit.ly/abc'') = False"
  by (simp add: contains_blocked_links_def findall_def url_pattern_def lit_def lower_def
        lower_cp_def)

lemma mentions_no_links:
  "contains_blocked_links default_config (lit ''@everyone @everyone @everyone'') = False"
  by (simp add: contains_blocked_links_def findall_def url_pattern_def lit_def lower_def
        lower_cp_def)

subsection \<open>The relay: forwarding and dropping\<close>

lemma spam_stage_keeps_seq:
  "message_history_seq (snd (spam_stage cfg now m w)) = message_history_seq (world_db w)"
  by (simp add: spam_stage_def settings_stage_def get_server_settings_def
        create_server_settings_def track_message_spam_def Let_def split: option.split)

lemma on_message_relays_one:
  assumes "\<not> author_bot m" and "type_of_message m = DefaultType"
    and "\<not> startswith (content m) (PREFIX cfg)"
    and "enabled (fst (settings_stage now m w))"
    and "\<not> fst (spam_stage cfg now m w)"
    and "\<not> (profanity_filter (fst (settings_stage now m w))
             \<and> contains_profanity cfg (content m))"
    and "\<not> contains_blocked_links cfg (content m)"
    and "get_connections_by_channel (channel_id m) (world_db w) = [conn]"
    and "deliverable e m conn"
    and "channel_send e (target_channel_id m conn) (make_embed m conn) [] = Inr forwarded_id"
  shows "outbox (on_message cfg e now m w)
           = outbox w @ [(target_channel_id m conn, make_embed m conn, [])]"
    and "delivered (on_message cfg e now m w)
           = delivered w @ [(target_channel_id m conn, forwarded_id)]"
    and "message_history (world_db (on_message cfg e now m w))
           = message_history (world_db w)
             @ [\<lparr>mh_id = message_history_seq (world_db w) + 1,
                 original_message_id = message_id m,
                 forwarded_message_id = forwarded_id,
                 author_id = author_uid m,
                 connection_id = conn_id conn,
                 timestamp = now,
                 content_hash = (if content m \<noteq> [] then Some (md5_hexdigest e (content m))
                                 else None)\<rparr>]"
proof -
  define w2 where "w2 = w\<lparr>world_db := snd (spam_stage cfg now m w)\<rparr>"
  have om: "on_message cfg e now m w = forward_message cfg e now m conn w2"
    using assms(1-8) by (auto simp add: on_message_unfold w2_def)
  show "outbox (on_message cfg e now m w)
           = outbox w @ [(target_channel_id m conn, make_embed m conn, [])]"
    unfolding om using assms(9) by (simp add: forward_message_outbox w2_def)
  show "delivered (on_message cfg e now m w)
           = delivered w @ [(target_channel_id m conn, forwarded_id)]"
    unfolding om using assms(9,10) by (simp add: forward_message_delivered w2_def)
  have "world_db (on_message cfg e now m w)
          = log_message now (message_id m) forwarded_id (author_uid m) (conn_id conn)
              (if content m \<noteq> [] then Some (md5_hexdigest e (content m)) else None)
              (snd (spam_stage cfg now m w))"
    unfolding om using assms(9,10) by (simp add: forward_message_db w2_def)
  then show "message_history (world_db (on_message cfg e now m w))
           = message_history (world_db w)
             @ [\<lparr>mh_id = message_history_seq (world_db w) + 1,
                 original_message_id = message_id m,
                 forwarded_message_id = forwarded_id,
                 author_id = author_uid m,
                 connection_id = conn_id conn,
                 timestamp = now,
                 content_hash = (if content m \<noteq> [] then Some (md5_hexdigest e (content m))
                                 else None)\<rparr>]"
    by (simp add: log_message_def Let_def spam_stage_keeps spam_stage_keeps_seq)
qed

text \<open>
  Claim C1. A message with the text \<open>hi\<close> and one attachment of 100 bytes, from a
  user, of the default type and not a command, posted in a channel with one active
  connection, on an enabled server, passing the spam check and the profanity check (the
  text has no link), with the opposite channel reachable and open and the send returning:
  the relay makes exactly one send, to the opposite channel, which is delivered, and
  writes exactly one row of \<open>message_history\<close>, with the digest of the text as its
  content hash. The send carries no file: building the file raises \<open>NameError\<close>
  (\<open>make_file_raises\<close>), which the inner \<open>try\<close> logs.
\<close>

theorem round_trip_forward:
  assumes "content m = lit ''hi''" and "attachments m = [a]" and "att_size a = 100"
    and "\<not> author_bot m" and "type_of_message m = DefaultType"
    and "\<not> startswith (lit ''hi'') (PREFIX cfg)"
    and "enabled (fst (settings_stage now m w))"
    and "\<not> fst (spam_stage cfg now m w)"
    and "\<not> (profanity_filter (fst (settings_stage now m w))
             \<and> contains_profanity cfg (lit ''hi''))"
    and "get_connections_by_channel (channel_id m) (world_db w) = [conn]"
    and "deliverable e m conn"
    and "channel_send e (target_channel_id m conn) (make_embed m conn) [] = Inr forwarded_id"
  shows "outbox (on_message cfg e now m w)
           = outbox w @ [(target_channel_id m conn, make_embed m conn, [])]
         \<and> delivered (on_message cfg e now m w)
           = delivered w @ [(target_channel_id m conn, forwarded_id)]
         \<and> message_history (world_db (on_message cfg e now m w))
           = message_history (world_db w)
             @ [\<lparr>mh_id = message_history_seq (world_db w) + 1,
                 original_message_id = message_id m,
                 forwarded_message_id = forwarded_id,
                 author_id = author_uid m,
                 connection_id = conn_id conn,
                 timestamp = now,
                 content_hash = Some (md5_hexdigest e (lit ''hi''))\<rparr>]"
proof -
  have ne: "content m \<noteq> []" using assms(1) by (simp add: lit_def)
  have links: "\<not> contains_blocked_links cfg (content m)"
    using assms(1) by (simp add: hi_no_links)
  note r = on_message_relays_one [of m cfg now w conn e forwarded_id, OF assms(4,5) _
      assms(7,8) _ links assms(10,11,12)]
  show ?thesis
    using r assms(1,6,9) ne by simp
qed

lemma one_connection_lobby:
  "connections one_connection = [lobby]"
  "get_connections_by_channel 10 one_connection = [lobby]"
  by (simp_all add: one_connection_def lobby_def create_connection_def init_db_def Let_def
        get_connections_by_channel_def)

lemma end_to_end_tables:
  "connections end_to_end = [lobby]"
  "get_connections_by_channel 10 end_to_end = [lobby]"
  "message_history end_to_end = []"
  "message_history_seq end_to_end = 0"
  "find (\<lambda>r. server_id r = 1) (server_settings end_to_end)
     = Some ((default_settings 1 1)\<lparr>spam_protection := False, profanity_filter := False,
                                      updated_at := 1\<rparr>)"
  by (simp_all add: end_to_end_def update_server_setting_def create_server_settings_def
        default_settings_def one_connection_def lobby_def create_connection_def init_db_def
        Let_def get_connections_by_channel_def)

lemma end_to_end_stages:
  "enabled (fst (settings_stage t (post body) (world_of end_to_end)))"
  "\<not> profanity_filter (fst (settings_stage t (post body) (world_of end_to_end)))"
  "\<not> fst (spam_stage cfg t (post body) (world_of end_to_end))"
  by (simp_all add: spam_stage_def settings_stage_def world_of_def get_server_settings_def
        post_def end_to_end_tables default_settings_def)

lemma open_platform_sends:
  "deliverable open_platform m conn"
  "channel_send open_platform c emb fs = Inr 9001"
  by (simp_all add: deliverable_def open_platform_def)

lemma lobby_target: "target_channel_id (post body) lobby = 20"
  by (simp add: target_channel_id_def post_def lobby_def)

lemma post_fields:
  "\<not> author_bot (post body)" "type_of_message (post body) = DefaultType"
  "content (post body) = body" "channel_id (post body) = 10" "guild_id (post body) = 1"
  "attachments (post body) = []"
  by (simp_all add: post_def)

lemma mass_mentions_reason:
  "contains_mass_mentions body 3 \<Longrightarrow>
   fst (filter_message cfg body check_profanity check_links check_spam check_tokens) = False
   \<and> MassMentions
       \<in> set (snd (filter_message cfg body check_profanity check_links check_spam check_tokens))"
proof -
  assume h: "contains_mass_mentions body 3"
  then have ne: "body \<noteq> []" by (auto simp: contains_mass_mentions_def)
  show ?thesis using h ne by (simp add: filter_message_def Let_def)
qed

text \<open>
  Claim C5 as stated fails: in the end-to-end setup the message \<open>bit.ly/abc\<close> is
  forwarded. \<open>url_pattern\<close> asks for \<open>http://\<close> or \<open>https://\<close>, so the text holds no
  URL for the link check; there is one send, to channel 20, and one row of
  \<open>message_history\<close>.
\<close>

theorem bare_link_forwarded_counterexample:
  "outbox (on_message default_config open_platform 60 (post (lit ''bit.ly/abc''))
             (world_of end_to_end))
     = [(20, make_embed (post (lit ''bit.ly/abc'')) lobby, [])]
   \<and> length (message_history (world_db (on_message default_config open_platform 60
        (post (lit ''bit.ly/abc'')) (world_of end_to_end)))) = 1"
proof -
  let ?m = "post (lit ''bit.ly/abc'')"
  have p: "\<not> startswith (content ?m) (PREFIX default_config)"
    by (simp add: post_def default_config_def lit_def)
  have c: "get_connections_by_channel (channel_id ?m) (world_db (world_of end_to_end)) = [lobby]"
    by (simp add: post_fields world_of_def end_to_end_tables)
  have l: "\<not> contains_blocked_links default_config (content ?m)"
    by (simp add: post_fields bitly_bare_passes)
  have f: "\<not> (profanity_filter (fst (settings_stage 60 ?m (world_of end_to_end)))
             \<and> contains_profanity default_config (content ?m))"
    by (simp add: no_profanity_default)
  note r = on_message_relays_one [of ?m default_config 60 "world_of end_to_end" lobby
      open_platform 9001, OF post_fields(1) post_fields(2) p end_to_end_stages(1)
      end_to_end_stages(3) f l c open_platform_sends(1) open_platform_sends(2)]
  show ?thesis
    using r(1) r(3) by (simp add: lobby_target world_of_def end_to_end_tables)
qed

text \<open>
  Claim C1 at the default configuration, on the open platform, with the one connection
  of \<open>one_connection\<close>.
\<close>

theorem round_trip_forward_witness:
  "outbox (on_message default_config open_platform 60
             ((post (lit ''hi''))\<lparr>attachments := [\<lparr>att_filename = lit ''a.png'', att_size = 100\<rparr>]\<rparr>)
             (world_of one_connection))
     = [(20, make_embed (post (lit ''hi'')) lobby, [])]
   \<and> delivered (on_message default_config open_platform 60
             ((post (lit ''hi''))\<lparr>attachments := [\<lparr>att_filename = lit ''a.png'', att_size = 100\<rparr>]\<rparr>)
             (world_of one_connection))
     = [(20, 9001)]
   \<and> map content_hash (message_history (world_db (on_message default_config open_platform 60
             ((post (lit ''hi''))\<lparr>attachments := [\<lparr>att_filename = lit ''a.png'', att_size = 100\<rparr>]\<rparr>)
             (world_of one_connection))))
     = [Some (lit ''49f68a5c8493ec2c0bf489821c21fc3b'')]"
proof -
  define a where "a = \<lparr>att_filename = lit ''a.png'', att_size = 100\<rparr>"
  define m where "m = (post (lit ''hi''))\<lparr>attachments := [a]\<rparr>"
  let ?w = "world_of one_connection"
  have f: "content m = lit ''hi''" "attachments m = [a]" "att_size a = 100"
    "\<not> author_bot m" "type_of_message m = DefaultType" "channel_id m = 10"
    by (simp_all add: m_def a_def post_def)
  have p: "\<not> startswith (lit ''hi'') (PREFIX default_config)"
    by (simp add: default_config_def lit_def)
  have s: "enabled (fst (settings_stage 60 m ?w))"
    by (simp add: settings_stage_fresh one_connection_tables default_settings_def)
  have b: "\<not> fst (spam_stage default_config 60 m ?w)"
    by (simp add: spam_stage_fresh one_connection_tables)
  have pr: "\<not> (profanity_filter (fst (settings_stage 60 m ?w))
             \<and> contains_profanity default_config (lit ''hi''))"
    by (simp add: no_profanity_default)
  have c: "get_connections_by_channel (channel_id m) (world_db ?w) = [lobby]"
    by (simp add: f world_of_def one_connection_lobby)
  have emb: "make_embed m lobby = make_embed (post (lit ''hi'')) lobby"
    by (simp add: make_embed_def m_def post_def)
  have tgt: "target_channel_id m lobby = 20"
    by (simp add: target_channel_id_def m_def post_def lobby_def)
  have md: "md5_hexdigest open_platform (lit ''hi'') = lit ''49f68a5c8493ec2c0bf489821c21fc3b''"
    by (simp add: open_platform_def)
  note t = round_trip_forward [of m a default_config 60 ?w lobby open_platform 9001,
      OF f(1) f(2) f(3) f(4) f(5) p s b pr c open_platform_sends(1) open_platform_sends(2)]
  show ?thesis
    using t unfolding m_def [symmetric] a_def [symmetric]
    by (simp add: emb tgt md world_of_def one_connection_tables)
qed

text \<open>
  Claim C4, as amended. A message for which the profanity check fires while the server's
  \<open>profanity_filter\<close> is on, or for which the link check fires, is dropped: the relay
  sends nothing to any channel (no forward and no notice to the sender) and writes no row
  of \<open>message_history\<close>. The relay runs no other check of the content filter.
\<close>

theorem relay_drops_on_profanity_or_link:
  "(profanity_filter (fst (settings_stage now m w)) \<and> contains_profanity cfg (content m))
   \<or> contains_blocked_links cfg (content m) \<Longrightarrow>
   outbox (on_message cfg e now m w) = outbox w
   \<and> delivered (on_message cfg e now m w) = delivered w
   \<and> message_history (world_db (on_message cfg e now m w)) = message_history (world_db w)"
  using on_message_dropped [of now m w cfg e] by blast

text \<open>
  Claim C4 as stated fails: \<open>filter_message\<close> rejects a text with three mass mentions
  (its reasons include \<open>MassMentions\<close>), and the relay forwards a message with that text.
\<close>

theorem relay_forwards_mass_mentions_counterexample:
  "fst (filter_message default_config (lit ''@everyone @everyone @everyone'')
          True True True True) = False
   \<and> MassMentions \<in> set (snd (filter_message default_config
          (lit ''@everyone @everyone @everyone'') True True True True))
   \<and> outbox (on_message default_config open_platform 60
          (post (lit ''@everyone @everyone @everyone'')) (world_of one_connection))
       = [(20, make_embed (post (lit ''@everyone @everyone @everyone'')) lobby, [])]
   \<and> delivered (on_message default_config open_platform 60
          (post (lit ''@everyone @everyone @everyone'')) (world_of one_connection))
       = [(20, 9001)]"
proof -
  let ?m = "post (lit ''@everyone @everyone @everyone'')"
  let ?w = "world_of one_connection"
  have p: "\<not> startswith (content ?m) (PREFIX default_config)"
    by (simp add: post_def default_config_def lit_def)
  have s: "enabled (fst (settings_stage 60 ?m ?w))"
    by (simp add: settings_stage_fresh one_connection_tables default_settings_def)
  have b: "\<not> fst (spam_stage default_config 60 ?m ?w)"
    by (simp add: spam_stage_fresh one_connection_tables)
  have pr: "\<not> (profanity_filter (fst (settings_stage 60 ?m ?w))
             \<and> contains_profanity default_config (content ?m))"
    by (simp add: no_profanity_default)
  have l: "\<not> contains_blocked_links default_config (content ?m)"
    by (simp add: post_fields mentions_no_links)
  have c: "get_connections_by_channel (channel_id ?m) (world_db ?w) = [lobby]"
    by (simp add: post_fields world_of_def one_connection_lobby)
  note r = on_message_relays_one [of ?m default_config 60 ?w lobby open_platform 9001,
      OF post_fields(1) post_fields(2) p s b pr l c open_platform_sends(1)
      open_platform_sends(2)]
  from mass_mentions_reason [OF three_mentions, of default_config True True True True]
    r(1) r(2)
  show ?thesis by (simp add: lobby_target world_of_def)
qed

text \<open>
  The amended claim C4 at a message with a blocked link, posted where a connection exists.
\<close>

theorem relay_drops_on_profanity_or_link_witness:
  "contains_blocked_links default_config (content (post (lit ''http://bit.ly/abc'')))
   \<and> outbox (on_message default_config open_platform 60 (post (lit ''http://bit.ly/abc''))
        (world_of one_connection)) = []
   \<and> delivered (on_message default_config open_platform 60 (post (lit ''http://bit.ly/abc''))
        (world_of one_connection)) = []
   \<and> message_history (world_db (on_message default_config open_platform 60
        (post (lit ''http://bit.ly/abc'')) (world_of one_connection))) = []"
proof -
  have h: "contains_blocked_links default_config (content (post (lit ''http://bit.ly/abc'')))"
    by (simp add: post_fields bitly_with_scheme_blocked)
  note t = relay_drops_on_profanity_or_link [of 60 "post (lit ''http://bit.ly/abc'')"
      "world_of one_connection" default_config open_platform, OF disjI2, OF h]
  from h t show ?thesis by (simp add: world_of_def one_connection_tables)
qed

text \<open>
  Claim C5, as amended. In every state, and so in the end-to-end setup, a message with
  the content \<open>http://bit.ly/abc\<close> results in no send and no row of \<open>message_history\<close>.
\<close>

theorem scheme_link_dropped:
  "outbox (on_message default_config e now (m\<lparr>content := lit ''http://bit.ly/abc''\<rparr>) w)
     = outbox w
   \<and> delivered (on_message default_config e now (m\<lparr>content := lit ''http://bit.ly/abc''\<rparr>) w)
     = delivered w
   \<and> message_history (world_db
        (on_message default_config e now (m\<lparr>content := lit ''http://bit.ly/abc''\<rparr>) w))
     = message_history (world_db w)"
proof -
  have "contains_blocked_links default_config
          (content (m\<lparr>content := lit ''http://bit.ly/abc''\<rparr>))"
    by (simp add: bitly_with_scheme_blocked)
  then show ?thesis
    using on_message_dropped [of now "m\<lparr>content := lit ''http://bit.ly/abc''\<rparr>" w
        default_config e]
    by blast
qed

text \<open>
  The amended claim C5 in the end-to-end setup.
\<close>

theorem scheme_link_dropped_witness:
  "outbox (on_message default_config open_platform 60 (post (lit ''http://bit.ly/abc''))
     (world_of end_to_end)) = []
   \<and> message_history (world_db (on_message default_config open_platform 60
        (post (lit ''http://bit.ly/abc'')) (world_of end_to_end))) = []"
proof -
  have m: "(post (lit ''bit.ly/abc''))\<lparr>content := lit ''http://bit.ly/abc''\<rparr>
             = post (lit ''http://bit.ly/abc'')"
    by (simp add: post_def)
  note t = scheme_link_dropped [of open_platform 60 "post (lit ''bit.ly/abc'')"
      "world_of end_to_end", unfolded m]
  then show ?thesis by (simp add: world_of_def end_to_end_tables)
qed

subsection \<open>The spam count of unconnected channels\<close>

lemma unconnected_posts:
  "outbox (post_at default_config open_platform [0, 1, 2, 3, 4] (post (lit ''hi''))
             (world_of init_db)) = []
   \<and> is_user_spam_blocked default_config 4 42 1 10
        (world_db (post_at default_config open_platform [0, 1, 2, 3, 4] (post (lit ''hi''))
                     (world_of init_db)))"
  by (simp add: on_message_def get_server_settings_def create_server_settings_def
        default_settings_def track_message_spam_def same_key_def live_def default_config_def
        post_def world_of_def init_db_def get_connections_by_channel_def
        is_user_spam_blocked_def lit_def Let_def)

text \<open>
  Claim C10. For a message of a user, of the default type and not a command, on an
  enabled server with \<open>spam_protection\<close> on, the spam table after \<open>on_message\<close> is
  the table after \<open>track_message_spam\<close> for the sender, whatever the connections of
  the channel are: the count is taken before the connections are looked up. So with no
  connection at all (\<open>init_db\<close>), five messages of user 42 in channel 10 at the seconds
  0 to 4 send nothing and leave the user blocked.
\<close>

theorem spam_counted_before_lookup:
  "(\<not> author_bot m \<and> type_of_message m = DefaultType
    \<and> \<not> startswith (content m) (PREFIX cfg)
    \<and> enabled (fst (settings_stage now m w))
    \<and> spam_protection (fst (settings_stage now m w))
    \<longrightarrow> spam_tracking (world_db (on_message cfg e now m w))
          = spam_tracking (snd (track_message_spam cfg now (author_uid m) (guild_id m)
                                  (channel_id m) (snd (settings_stage now m w)))))
   \<and> get_connections_by_channel 10 init_db = []
   \<and> outbox (post_at default_config open_platform [0, 1, 2, 3, 4] (post (lit ''hi''))
        (world_of init_db)) = []
   \<and> is_user_spam_blocked default_config 4 42 1 10
        (world_db (post_at default_config open_platform [0, 1, 2, 3, 4] (post (lit ''hi''))
                     (world_of init_db)))"
proof (intro conjI impI)
  assume a: "\<not> author_bot m \<and> type_of_message m = DefaultType
    \<and> \<not> startswith (content m) (PREFIX cfg)
    \<and> enabled (fst (settings_stage now m w))
    \<and> spam_protection (fst (settings_stage now m w))"
  then have s: "snd (spam_stage cfg now m w)
      = snd (track_message_spam cfg now (author_uid m) (guild_id m) (channel_id m)
               (snd (settings_stage now m w)))"
    by (simp add: spam_stage_def)
  have "spam_tracking (world_db (on_message cfg e now m w))
          = spam_tracking (snd (spam_stage cfg now m w))"
    using a by (simp add: on_message_unfold forward_all_spam_tracking)
  then show "spam_tracking (world_db (on_message cfg e now m w))
          = spam_tracking (snd (track_message_spam cfg now (author_uid m) (guild_id m)
                                  (channel_id m) (snd (settings_stage now m w))))"
    by (simp only: s)
next
  show "get_connections_by_channel 10 init_db = []"
    by (simp add: get_connections_by_channel_def init_db_def)
next
  show "outbox (post_at default_config open_platform [0, 1, 2, 3, 4] (post (lit ''hi''))
        (world_of init_db)) = []"
    using unconnected_posts by blast
next
  show "is_user_spam_blocked default_config 4 42 1 10
        (world_db (post_at default_config open_platform [0, 1, 2, 3, 4] (post (lit ''hi''))
                     (world_of init_db)))"
    using unconnected_posts by blast
qed

text \<open>Claim C10 at the first message of a user in a channel without connections.\<close>

theorem spam_counted_before_lookup_witness:
  "map message_count (spam_tracking (world_db (on_message default_config open_platform 0
       (post (lit ''hi'')) (world_of init_db)))) = [1]
   \<and> get_connections_by_channel 10 (world_db (world_of init_db)) = []"
proof -
  let ?m = "post (lit ''hi'')"
  let ?w = "world_of init_db"
  have st: "settings_stage 0 ?m ?w
      = (default_settings 0 1, init_db\<lparr>server_settings := [default_settings 0 1]\<rparr>)"
    by (simp add: settings_stage_fresh init_db_def post_fields)
  have h: "\<not> author_bot ?m \<and> type_of_message ?m = DefaultType
    \<and> \<not> startswith (content ?m) (PREFIX default_config)
    \<and> enabled (fst (settings_stage 0 ?m ?w))
    \<and> spam_protection (fst (settings_stage 0 ?m ?w))"
  proof -
    have h0: "\<not> author_bot ?m \<and> type_of_message ?m = DefaultType
      \<and> \<not> startswith (content ?m) (PREFIX default_config)"
      by (simp add: post_def default_config_def lit_def)
    have h1: "enabled (fst (settings_stage 0 ?m ?w))
      \<and> spam_protection (fst (settings_stage 0 ?m ?w))"
      by (simp add: st default_settings_def)
    from h0 h1 show ?thesis by simp
  qed
  note t = spam_counted_before_lookup [of ?m default_config 0 ?w open_platform,
      THEN conjunct1, rule_format, OF h]
  have "map message_count (spam_tracking (world_db (on_message default_config open_platform 0
       ?m ?w))) = [1]"
    unfolding t st
    by (simp add: track_message_spam_def same_key_def live_def init_db_def post_def Let_def)
  moreover have "get_connections_by_channel 10 (world_db ?w) = []"
    by (simp add: get_connections_by_channel_def init_db_def world_of_def)
  ultimately show ?thesis by (intro conjI)
qed

end
